theory Spec2Isabelle
  imports Main
begin

section \<open>Text formatting\<close>

text \<open>
  Go strings are byte sequences; they are modelled as \<open>string\<close> (a list of 8-bit
  characters). The verbs of \<open>fmt.Sprintf\<close> that the program uses on numbers are
  \<open>%X\<close> (upper-case hexadecimal, no padding) and \<open>%d\<close> (decimal); \<open>%s\<close> and
  \<open>%v\<close> of a string or of an error's text insert the text as it is.
\<close>

definition upperhex :: string where
  "upperhex = ''0123456789ABCDEF''"

definition decimals :: string where
  "decimals = ''0123456789''"

fun fmt_X :: "nat \<Rightarrow> string" where
  "fmt_X n = (if n < 16 then [upperhex ! n]
              else fmt_X (n div 16) @ [upperhex ! (n mod 16)])"

declare fmt_X.simps [simp del]

fun fmt_nat :: "nat \<Rightarrow> string" where
  "fmt_nat n = (if n < 10 then [decimals ! n]
                else fmt_nat (n div 10) @ [decimals ! (n mod 10)])"

declare fmt_nat.simps [simp del]

definition fmt_d :: "int \<Rightarrow> string" where
  "fmt_d i = (if i < 0 then CHR ''-'' # fmt_nat (nat (- i)) else fmt_nat (nat i))"

text \<open>The single quote and the line feed, which a string literal cannot hold.\<close>

definition quoted :: "string \<Rightarrow> string" where
  "quoted s = CHR 0x27 # s @ [CHR 0x27]"

definition newline :: string where
  "newline = [CHR 0x0A]"

section \<open>Package util: the random suffix\<close>

text \<open>
  \<open>rand.Intn(n)\<close> returns a value in \<open>[0, n)\<close>; for a power of two the library
  computes it as the generator's next 31-bit output masked with \<open>n - 1\<close>. The
  generator's outputs are a parameter of the model: \<open>draws i\<close> is the output behind
  the \<open>i\<close>-th call. \<open>byte(x)\<close> keeps the low eight bits.
\<close>

definition Intn :: "nat \<Rightarrow> nat \<Rightarrow> nat" where
  "Intn n raw = raw mod n"

definition byte :: "nat \<Rightarrow> nat" where
  "byte x = x mod 256"

definition HEX_COUNT :: nat where
  "HEX_COUNT = 8"

definition HEX_BOUND :: nat where
  "HEX_BOUND = 16"

definition GenerateHexSuffix :: "(nat \<Rightarrow> nat) \<Rightarrow> string" where
  "GenerateHexSuffix draws =
     (let hexDigits = map (\<lambda>i. byte (Intn HEX_BOUND (draws i))) [0..<HEX_COUNT]
      in fmt_X (hexDigits ! 0) @ fmt_X (hexDigits ! 1) @ fmt_X (hexDigits ! 2) @
         fmt_X (hexDigits ! 3) @ ''-'' @
         fmt_X (hexDigits ! 4) @ fmt_X (hexDigits ! 5) @ fmt_X (hexDigits ! 6) @
         fmt_X (hexDigits ! 7))"

section \<open>Package message\<close>

type_synonym suntimes = "(int \<times> string \<times> string) list"

datatype setting_value =
    StringSetting string
  | IntSetting int
  | SuntimesSetting suntimes

text \<open>
  \<open>Message.Content\<close> is an \<open>interface{}\<close> that holds one of the four content
  structs; the settings map of \<open>ConfigContent\<close> is an association list.
\<close>

datatype content =
    ControlContent bool
  | ConfigContent "(string \<times> setting_value) list"
  | RestartContent bool
  | EmptyContent

record header =
  MessageID :: string
  Timestamp :: string

record message =
  Header :: header
  Content :: content

text \<open>
  \<open>now\<close> is \<open>time.Now()\<close> formatted as RFC 3339, read from the clock by
  \<open>NewMessage\<close>.
\<close>

definition NewMessage :: "(nat \<Rightarrow> nat) \<Rightarrow> string \<Rightarrow> string \<Rightarrow> content \<Rightarrow> message" where
  "NewMessage draws now clientID content =
     (let messageID = clientID @ ''-'' @ GenerateHexSuffix draws;
          header = \<lparr>MessageID = messageID, Timestamp = now\<rparr>
      in \<lparr>Header = header, Content = content\<rparr>)"

record ack_message =
  ID :: string
  StatusCode :: int
  Message_ack :: string
  Content_ack :: string

section \<open>Package command\<close>

datatype ack_handler = GetStatusAckHandler bool

record command =
  Host :: string
  Topic :: string
  QOS :: nat
  Message :: message
  IsAckExpected :: bool
  AckHandler :: "ack_handler option"

text \<open>
  \<open>strconv.Atoi\<close>: an optional sign, then one or more decimal digits, and the value
  must fit the 64-bit \<open>int\<close>; anything else is an error.
\<close>

definition isDigit :: "char \<Rightarrow> bool" where
  "isDigit c = (48 \<le> (of_char c :: nat) \<and> (of_char c :: nat) \<le> 57)"

definition Atoi :: "string \<Rightarrow> int option" where
  "Atoi s =
     (let (neg, ds) =
            (case s of
               [] \<Rightarrow> (False, [])
             | c # r \<Rightarrow> if c = CHR ''-'' then (True, r)
                        else if c = CHR ''+'' then (False, r) else (False, s))
      in if ds = [] \<or> \<not> list_all isDigit ds then None
         else
           (let n = int (foldl (\<lambda>a c. 10 * a + (of_char c - 48)) 0 ds);
                v = (if neg then - n else n)
            in if - (2 ^ 63) \<le> v \<and> v \<le> 2 ^ 63 - 1 then Some v else None))"

definition NewControlCommand ::
  "(nat \<Rightarrow> nat) \<Rightarrow> string \<Rightarrow> string \<Rightarrow> string \<Rightarrow> string list \<Rightarrow> string + command" where
  "NewControlCommand draws now clientID host args =
     (case args of
        [] \<Rightarrow> Inl ''switch command is missing the on/off parameter''
      | switchOnStr # args' \<Rightarrow>
          if switchOnStr \<noteq> ''on'' \<and> switchOnStr \<noteq> ''off''
          then Inl (''switch command is expecting on or off instead of '' @ switchOnStr)
          else if args' \<noteq> [] then Inl ''unexpected arguments for switch command''
          else Inr \<lparr>Host = host,
                    Topic = ''indy-switch/'' @ host @ ''/control'',
                    QOS = 2,
                    Message = NewMessage draws now clientID
                                (ControlContent (switchOnStr = ''on'')),
                    IsAckExpected = True,
                    AckHandler = None\<rparr>)"

text \<open>
  \<open>readSuntimes\<close> opens and decodes a file; what it returns for a file name is a
  parameter (\<open>Inl\<close> its error text).
\<close>

definition NewConfigCommand ::
  "(nat \<Rightarrow> nat) \<Rightarrow> string \<Rightarrow> (string \<Rightarrow> string + suntimes) \<Rightarrow>
   string \<Rightarrow> string \<Rightarrow> string list \<Rightarrow> string + command" where
  "NewConfigCommand draws now readSuntimes clientID host args =
     (case args of
        [] \<Rightarrow> Inl ''config command is missing setting''
      | settingName # args1 \<Rightarrow>
          (let parsed =
                 (if settingName = ''timezone'' then
                    (case args1 of
                       [] \<Rightarrow> Inl ''timezone missing''
                     | timezone # args2 \<Rightarrow> Inr (StringSetting timezone, args2))
                  else if settingName = ''offset'' then
                    (case args1 of
                       [] \<Rightarrow> Inl ''offset missing''
                     | offsetStr # args2 \<Rightarrow>
                         (case Atoi offsetStr of
                            None \<Rightarrow> Inl ''offset needs to be a postive integer''
                          | Some offset \<Rightarrow>
                              if offset \<le> 0
                              then Inl ''offset needs to be a postive integer''
                              else Inr (IntSetting offset, args2)))
                  else if settingName = ''suntimes'' then
                    (case args1 of
                       [] \<Rightarrow> Inl ''file name missing''
                     | filename # args2 \<Rightarrow>
                         (case readSuntimes filename of
                            Inl err \<Rightarrow> Inl err
                          | Inr suntimes \<Rightarrow> Inr (SuntimesSetting suntimes, args2)))
                  else Inl (''unrecognized setting '' @ settingName))
           in case parsed of
                Inl err \<Rightarrow> Inl err
              | Inr (v, rest) \<Rightarrow>
                  if rest \<noteq> [] then Inl ''unexpected arguments for config command''
                  else Inr \<lparr>Host = host,
                            Topic = ''indy-switch/'' @ host @ ''/config'',
                            QOS = 2,
                            Message = NewMessage draws now clientID
                                        (ConfigContent [(settingName, v)]),
                            IsAckExpected = True,
                            AckHandler = None\<rparr>))"

definition NewGetStatusCommand ::
  "(nat \<Rightarrow> nat) \<Rightarrow> string \<Rightarrow> string \<Rightarrow> string \<Rightarrow> string list \<Rightarrow> string + command" where
  "NewGetStatusCommand draws now clientID host args =
     (let parsed =
            (if length args = 1 then
               (if hd args \<noteq> ''all''
                then Inl (''status command is expecting all instead of '' @ hd args)
                else Inr (True, tl args))
             else Inr (False, args))
      in case parsed of
           Inl err \<Rightarrow> Inl err
         | Inr (all, rest) \<Rightarrow>
             if rest \<noteq> [] then Inl ''unexpected arguments for status command''
             else Inr \<lparr>Host = host,
                       Topic = ''indy-switch/'' @ host @ ''/status/get'',
                       QOS = 2,
                       Message = NewMessage draws now clientID EmptyContent,
                       IsAckExpected = True,
                       AckHandler = Some (GetStatusAckHandler all)\<rparr>)"

definition NewRestartCommand ::
  "(nat \<Rightarrow> nat) \<Rightarrow> string \<Rightarrow> string \<Rightarrow> string \<Rightarrow> string list \<Rightarrow> string + command" where
  "NewRestartCommand draws now clientID host args =
     (if args \<noteq> [] then Inl ''unexpected arguments for restart command''
      else Inr \<lparr>Host = host,
                Topic = ''indy-switch/'' @ host @ ''/restart'',
                QOS = 2,
                Message = NewMessage draws now clientID (RestartContent False),
                IsAckExpected = False,
                AckHandler = None\<rparr>)"

definition NewResetCommand ::
  "(nat \<Rightarrow> nat) \<Rightarrow> string \<Rightarrow> string \<Rightarrow> string \<Rightarrow> string list \<Rightarrow> string + command" where
  "NewResetCommand draws now clientID host args =
     (if args \<noteq> [] then Inl ''unexpected arguments for reset command''
      else Inr \<lparr>Host = host,
                Topic = ''indy-switch/'' @ host @ ''/restart'',
                QOS = 2,
                Message = NewMessage draws now clientID (RestartContent True),
                IsAckExpected = False,
                AckHandler = None\<rparr>)"

definition NewCommand ::
  "(nat \<Rightarrow> nat) \<Rightarrow> string \<Rightarrow> (string \<Rightarrow> string + suntimes) \<Rightarrow>
   string \<Rightarrow> string list \<Rightarrow> string + command" where
  "NewCommand draws now readSuntimes clientID args =
     (case args of
        [] \<Rightarrow> Inl ''no host specified''
      | host # args1 \<Rightarrow>
          (case args1 of
             [] \<Rightarrow> Inl ''no command specified''
           | cmdStr # args2 \<Rightarrow>
               if cmdStr = ''switch'' then NewControlCommand draws now clientID host args2
               else if cmdStr = ''config''
                 then NewConfigCommand draws now readSuntimes clientID host args2
               else if cmdStr = ''status'' then NewGetStatusCommand draws now clientID host args2
               else if cmdStr = ''restart'' then NewRestartCommand draws now clientID host args2
               else if cmdStr = ''reset'' then NewResetCommand draws now clientID host args2
               else Inl (''unrecognized command '' @ cmdStr)))"

section \<open>What one invocation can observe and do\<close>

text \<open>
  The program is a single run of \<open>main\<close> against a broker, a clock, the operating
  system and the operator. Everything those decide is gathered in a record \<open>env\<close>;
  everything the program does, and every answer it observes, is appended to a trace of
  events. The goroutines of the program synchronise on channels; the trace lists their
  events in one order consistent with that synchronisation, and the handling of one
  acknowledgment by the watching goroutine (up to \<open>close(acked)\<close>) is taken as one
  step. The client reconnects by itself (\<open>AutoReconnect\<close>): while \<open>main\<close> watches
  for the acknowledgment the link may be lost and come back, and then the handlers
  \<open>OnConnectionLost\<close>, \<open>OnReconnecting\<close> and \<open>OnConnect\<close> run again. From the
  connect to the end of the first \<open>select\<close> of \<open>main\<close> the link is taken to stay
  up, and an interrupt is taken to arrive only once \<open>signal.Notify\<close> has registered
  the channel, that is, during one of the two \<open>select\<close>s of \<open>main\<close>. The
  \<open>-debug\<close> flag and the loggers of the MQTT library are left out.
\<close>

datatype stream = Stdout | Stderr

datatype subscribe_reply =
    SubscribeOk
  | SubscribeError string
  | NoReply

datatype wait_event =
    MessageArrives string
  | TimerFires
  | SignalArrives
  | ConnectionLost string
  | Reconnecting
  | Reconnected subscribe_reply

datatype event =
    Logged stream string string
  | Printed stream string
  | FlagUsage
  | ClientConnect string string
  | ConnectTokenDone "string option"
  | ClientSubscribe string nat
  | SubscribeTokenDone "string option"
  | ClientPublish string nat bool string
  | PublishTokenDone "string option"
  | TimeAfter nat
  | Received wait_event
  | HandleAckCalled string
  | ClientDisconnect nat
  | Panic string
  | OsExit nat

text \<open>
  \<open>Logged st prefix msg\<close> is a line written by a \<open>log.Logger\<close> (its date and time
  left out), \<open>Printed st text\<close> a write of package \<open>fmt\<close>; \<open>TimeAfter d\<close> is a
  call of \<open>time.After\<close> with \<open>d\<close> nanoseconds; the \<open>...TokenDone\<close> events are the
  completions of the broker's tokens with their error (\<open>None\<close> is \<open>nil\<close>);
  \<open>Received e\<close> is an event that reaches the program while it watches for the
  acknowledgment: a message on the ack topic, the timer, the interrupt, the loss of
  the link with its error, the start of a reconnect, and the link coming back, with
  the broker's answer to the subscription that \<open>OnConnect\<close> then makes again.
  \<open>Panic msg\<close> is a run-time panic that nothing recovers; \<open>OsExit c\<close> is the end of
  the process with status \<open>c\<close>.
\<close>

datatype 'a result = Exited nat | Returned 'a

text \<open>
  A step either ends the process with a status (\<open>os.Exit\<close>, or 2 after a panic) or
  returns a value. When \<open>main\<close> returns, the process ends with status 0.
\<close>

definition exit_status :: "'a result \<Rightarrow> nat" where
  "exit_status r = (case r of Exited c \<Rightarrow> c | Returned _ \<Rightarrow> 0)"

definition andThen ::
  "event list \<times> 'a result \<Rightarrow> ('a \<Rightarrow> event list \<times> 'b result) \<Rightarrow> event list \<times> 'b result" where
  "andThen p f =
     (case p of
        (es, Exited c) \<Rightarrow> (es, Exited c)
      | (es, Returned a) \<Rightarrow> (case f a of (es', r) \<Rightarrow> (es @ es', r)))"

datatype 'a loaded = ReadFailed string | UnmarshalFailed string | Loaded 'a

record configRegular =
  Hostname :: "string option"
  Port :: "int option"

record configSecrets =
  Username :: "string option"
  Password :: "string option"

text \<open>
  \<open>Config\<close> holds four pointers that \<open>checkFields\<close> has found set before
  \<open>LoadConfig\<close> returns; it is modelled with the values they point to.
\<close>

record config =
  cfgHostname :: string
  cfgPort :: int
  cfgUsername :: string
  cfgPassword :: string

text \<open>
  What \<open>flag.Parse\<close> makes of the command line. The flag set is
  \<open>flag.CommandLine\<close>, whose error handling is \<open>ExitOnError\<close>: on a flag that is not
  defined or a value that does not parse it prints the error and the usage and ends
  the process with status 2; on \<open>-h\<close>, which is not defined, it prints the usage and
  ends the process with status 0.
\<close>

datatype flag_parse =
    FlagsParsed
  | FlagHelp
  | FlagError string

datatype publish_wait =
    TokenDone "string option"
  | InterruptFirst

datatype client = Client string string

record env =
  binaryName :: string
  flagParse :: flag_parse
  printHelp :: bool
  printVersion :: bool
  Verbose :: bool
  flagArgs :: "string list"
  versionLine :: string
  configFile :: "configRegular loaded"
  secretsFile :: "configSecrets loaded"
  osHostname :: "string + string"
  unicodeToTitle :: "nat \<Rightarrow> nat"
  draws :: "nat \<Rightarrow> nat"
  now :: string
  readSuntimes :: "string \<Rightarrow> string + suntimes"
  connectError :: "string option"
  subscribeReply :: subscribe_reply
  jsonMarshal :: "message \<Rightarrow> string + string"
  jsonMarshalIndent :: "message \<Rightarrow> string + string"
  publishWait :: publish_wait
  ackWait :: "wait_event list"
  jsonIndent :: "string \<Rightarrow> string + string"
  jsonUnmarshalAck :: "string \<Rightarrow> string + ack_message"
  statusHandler :: "bool \<Rightarrow> string \<Rightarrow> string list \<times> string option"

text \<open>
  The fields, in the order the program meets them: the base name of the binary; how
  \<open>flag.Parse\<close> ends, and the flags and the remaining arguments as it leaves them;
  the line printed for \<open>-version\<close>; the two config files as read and decoded;
  \<open>os.Hostname()\<close> (\<open>Inl\<close> is an error); the title-case mapping of package
  \<open>unicode\<close> for the runes above ASCII; the random generator and the clock; the
  suntimes file
  reader; the error of the connect token; how the broker answers the subscription
  within \<open>TIMEOUT\<close> (\<open>NoReply\<close>: the token does not complete in time); the results of
  \<open>json.Marshal\<close> and \<open>json.MarshalIndent\<close>; which case of the first
  \<open>select\<close> of \<open>main\<close> fires; the events that reach the second \<open>select\<close> and the
  watching goroutine, in order (when the list runs out, the timer fires); the results of
  \<open>json.Indent\<close> and of \<open>json.Unmarshal\<close> into an \<open>AckMessage\<close>; and the lines
  printed and the error returned by \<open>GetStatusAckHandler.HandleAck\<close>.
\<close>

section \<open>Package util: loggers and fatal usage\<close>

text \<open>
  \<open>ConfigureLogging\<close> makes \<open>INFO\<close> a \<open>log.Logger\<close> on standard output when
  \<open>Verbose\<close> is set and a \<open>NOOPLogger\<close> otherwise; \<open>WARNING\<close> and \<open>ERROR\<close> are
  always \<open>log.Logger\<close>s on standard error. \<open>Fatalf\<close> of a \<open>log.Logger\<close> prints
  and then calls \<open>os.Exit(1)\<close>.
\<close>

definition INFO_Printf :: "env \<Rightarrow> string \<Rightarrow> event list" where
  "INFO_Printf e msg = (if Verbose e then [Logged Stdout ''INFO: '' msg] else [])"

definition WARNING_Printf :: "string \<Rightarrow> event list" where
  "WARNING_Printf msg = [Logged Stderr ''WARNING: '' msg]"

definition ERROR_Printf :: "string \<Rightarrow> event list" where
  "ERROR_Printf msg = [Logged Stderr ''ERROR: '' msg]"

definition ERROR_Fatalf :: "string \<Rightarrow> event list \<times> 'a result" where
  "ERROR_Fatalf msg = ([Logged Stderr ''ERROR: '' msg, OsExit 1], Exited 1)"

text \<open>
  A Go string is a sequence of bytes. The conversion \<open>[]rune(input)\<close> decodes it as
  UTF-8, one rune after the other: a byte that does not start a well-formed encoding
  becomes the rune \<open>U+FFFD\<close> and the decoding goes on with the next byte.
  \<open>decodeRune c cs\<close> decodes the rune that starts with the byte \<open>c\<close> and returns it
  with the number of bytes of \<open>cs\<close> that belong to it.
\<close>

definition RuneError :: nat where
  "RuneError = 65533"

definition continuation :: "string \<Rightarrow> nat \<Rightarrow> nat \<Rightarrow> nat \<Rightarrow> bool" where
  "continuation cs i lo hi =
     (i < length cs \<and> lo \<le> (of_char (cs ! i) :: nat) \<and> (of_char (cs ! i) :: nat) \<le> hi)"

definition decodeRune :: "char \<Rightarrow> string \<Rightarrow> nat \<times> nat" where
  "decodeRune c cs =
     (let s0 = (of_char c :: nat);
          s1 = (of_char (cs ! 0) :: nat);
          s2 = (of_char (cs ! 1) :: nat);
          s3 = (of_char (cs ! 2) :: nat)
      in if s0 < 128 then (s0, 0)
         else if 192 \<le> s0 \<and> s0 < 224 then
           (if continuation cs 0 128 191 \<and> 127 < (s0 mod 32) * 64 + s1 mod 64
            then ((s0 mod 32) * 64 + s1 mod 64, 1)
            else (RuneError, 0))
         else if 224 \<le> s0 \<and> s0 < 240 then
           (let r = (s0 mod 16) * 4096 + (s1 mod 64) * 64 + s2 mod 64
            in if continuation cs 0 128 191 \<and> continuation cs 1 128 191 \<and>
                  2047 < r \<and> \<not> (55296 \<le> r \<and> r \<le> 57343)
               then (r, 2)
               else (RuneError, 0))
         else if 240 \<le> s0 \<and> s0 < 248 then
           (let r = (s0 mod 8) * 262144 + (s1 mod 64) * 4096 + (s2 mod 64) * 64 + s3 mod 64
            in if continuation cs 0 128 191 \<and> continuation cs 1 128 191 \<and>
                  continuation cs 2 128 191 \<and> 65535 < r \<and> r \<le> 1114111
               then (r, 3)
               else (RuneError, 0))
         else (RuneError, 0))"

fun runesOf :: "string \<Rightarrow> nat list" where
  "runesOf [] = []"
| "runesOf (c # cs) = (case decodeRune c cs of (r, k) \<Rightarrow> r # runesOf (drop k cs))"

text \<open>
  The conversion back, \<open>string(runes)\<close>, encodes every rune as UTF-8; a rune that is
  out of range or a surrogate is encoded as \<open>U+FFFD\<close>.
\<close>

definition encodeRune :: "nat \<Rightarrow> string" where
  "encodeRune r =
     (if r < 128 then [char_of r]
      else if r < 2048 then [char_of (192 + r div 64), char_of (128 + r mod 64)]
      else if 1114111 < r \<or> (55296 \<le> r \<and> r \<le> 57343) then
        [char_of (239 :: nat), char_of (191 :: nat), char_of (189 :: nat)]
      else if r < 65536 then
        [char_of (224 + r div 4096), char_of (128 + (r div 64) mod 64),
         char_of (128 + r mod 64)]
      else
        [char_of (240 + r div 262144), char_of (128 + (r div 4096) mod 64),
         char_of (128 + (r div 64) mod 64), char_of (128 + r mod 64)])"

definition stringOf :: "nat list \<Rightarrow> string" where
  "stringOf runes = concat (map encodeRune runes)"

text \<open>
  \<open>unicode.ToTitle\<close>: for an ASCII rune the title case is the upper case; for the
  others it is read from the tables of package \<open>unicode\<close>, which are a parameter.
\<close>

definition ToTitle :: "(nat \<Rightarrow> nat) \<Rightarrow> nat \<Rightarrow> nat" where
  "ToTitle table r =
     (if r \<le> 127 then (if 97 \<le> r \<and> r \<le> 122 then r - 32 else r)
      else table r)"

text \<open>
  \<open>capitalizeFirstLetter\<close>: the string of a non-empty input has a first rune, so the
  assignment to \<open>runes[0]\<close> is in range.
\<close>

definition capitalizeFirstLetter :: "(nat \<Rightarrow> nat) \<Rightarrow> string \<Rightarrow> string" where
  "capitalizeFirstLetter table input =
     (if input = [] then input
      else (case runesOf input of
              [] \<Rightarrow> input
            | r # runes \<Rightarrow> stringOf (ToTitle table r # runes)))"

definition PrintFatalUsage :: "env \<Rightarrow> string \<Rightarrow> event list \<times> 'a result" where
  "PrintFatalUsage e msg =
     ([Printed Stderr (''ERROR: '' @ capitalizeFirstLetter (unicodeToTitle e) msg @
                       newline @ newline),
       FlagUsage, OsExit 0], Exited 0)"

section \<open>Package config\<close>

definition loadConfig :: "string \<Rightarrow> 'a loaded \<Rightarrow> event list \<times> 'a result" where
  "loadConfig path file =
     (case file of
        ReadFailed err \<Rightarrow>
          ERROR_Fatalf (''Failed to read config file '' @ quoted path @ '': '' @ err)
      | UnmarshalFailed err \<Rightarrow>
          ERROR_Fatalf (''Failed to unmarshal config file '' @ quoted path @ '': '' @ err)
      | Loaded dest \<Rightarrow> ([], Returned dest))"

definition checkFields_regular :: "configRegular \<Rightarrow> string \<Rightarrow> event list \<times> (string \<times> int) result" where
  "checkFields_regular c path =
     (case Hostname c of
        None \<Rightarrow> ERROR_Fatalf (''hostname not found in '' @ quoted path)
      | Some h \<Rightarrow>
          (case Port c of
             None \<Rightarrow> ERROR_Fatalf (''port not found in '' @ quoted path)
           | Some p \<Rightarrow> ([], Returned (h, p))))"

definition checkFields_secrets :: "configSecrets \<Rightarrow> string \<Rightarrow> event list \<times> (string \<times> string) result" where
  "checkFields_secrets c path =
     (case Username c of
        None \<Rightarrow> ERROR_Fatalf (''username not found in '' @ quoted path)
      | Some u \<Rightarrow>
          (case Password c of
             None \<Rightarrow> ERROR_Fatalf (''password not found in '' @ quoted path)
           | Some p \<Rightarrow> ([], Returned (u, p))))"

definition LoadConfig :: "env \<Rightarrow> event list \<times> config result" where
  "LoadConfig e =
     andThen (loadConfig ''internal/config/config.json'' (configFile e)) (\<lambda>config1.
     andThen (checkFields_regular config1 ''internal/config/config.json'') (\<lambda>(h, p).
     andThen (loadConfig ''internal/config/config-secrets.json'' (secretsFile e)) (\<lambda>config2.
     andThen (checkFields_secrets config2 ''internal/config/config-secrets.json'') (\<lambda>(u, pw).
       ([], Returned \<lparr>cfgHostname = h, cfgPort = p, cfgUsername = u, cfgPassword = pw\<rparr>)))))"

section \<open>The command line\<close>

definition parseCommandLine :: "env \<Rightarrow> event list \<times> string list result" where
  "parseCommandLine e =
     (case flagParse e of
        FlagError msg \<Rightarrow> ([Printed Stderr (msg @ newline), FlagUsage, OsExit 2], Exited 2)
      | FlagHelp \<Rightarrow> ([FlagUsage, OsExit 0], Exited 0)
      | FlagsParsed \<Rightarrow>
          (if printHelp e then ([FlagUsage, OsExit 0], Exited 0)
           else if printVersion e then
             ([Printed Stdout (versionLine e), OsExit 0], Exited 0)
           else ([], Returned (flagArgs e))))"

section \<open>Connecting\<close>

definition Second :: nat where
  "Second = 1000000000"

definition TIMEOUT :: nat where
  "TIMEOUT = 30 * Second"

definition ACK_QOS :: nat where
  "ACK_QOS = 1"

text \<open>
  The \<open>OnConnect\<close> handler of the first connection (\<open>connectionLost\<close> is still
  false): it subscribes to the ack topic only when an ack is expected, and a
  goroutine waits for the subscribe token; on success it closes \<open>subscribed\<close>.
\<close>

definition OnConnect :: "env \<Rightarrow> bool \<Rightarrow> string \<Rightarrow> event list" where
  "OnConnect e isAckExpected ackTopic =
     INFO_Printf e ''Connection established'' @
     (if isAckExpected then
        INFO_Printf e (''Subscribing to '' @ quoted ackTopic) @
        [ClientSubscribe ackTopic ACK_QOS] @
        (case subscribeReply e of
           SubscribeOk \<Rightarrow>
             [SubscribeTokenDone None] @ INFO_Printf e (''Susbscribed to '' @ quoted ackTopic)
         | SubscribeError err \<Rightarrow>
             [SubscribeTokenDone (Some err)] @
             ERROR_Printf (''Failed to subscribe to '' @ quoted ackTopic @ '': '' @ err)
         | NoReply \<Rightarrow> [])
      else [])"

text \<open>
  The three handlers as they run whenever the client calls them. \<open>OnConnectHandler\<close>
  is given the value of \<open>connectionLost\<close> and the broker's answer to the
  subscription it makes; it leaves \<open>connectionLost\<close> false. What its goroutine does
  after a subscribe token without error, \<open>close(subscribed)\<close>, depends on whether
  the channel is closed already and is part of \<open>watchFrom\<close> below.
\<close>

definition OnConnectHandler :: "env \<Rightarrow> bool \<Rightarrow> bool \<Rightarrow> string \<Rightarrow> subscribe_reply \<Rightarrow> event list" where
  "OnConnectHandler e connectionLost isAckExpected ackTopic reply =
     (if connectionLost then [Printed Stdout (''Connection reestablished'' @ newline)]
      else INFO_Printf e ''Connection established'') @
     (if isAckExpected then
        INFO_Printf e (''Subscribing to '' @ quoted ackTopic) @
        [ClientSubscribe ackTopic ACK_QOS] @
        (case reply of
           SubscribeOk \<Rightarrow>
             [SubscribeTokenDone None] @ INFO_Printf e (''Susbscribed to '' @ quoted ackTopic)
         | SubscribeError err \<Rightarrow>
             [SubscribeTokenDone (Some err)] @
             ERROR_Printf (''Failed to subscribe to '' @ quoted ackTopic @ '': '' @ err)
         | NoReply \<Rightarrow> [])
      else [])"

definition OnConnectionLost :: "string \<Rightarrow> event list" where
  "OnConnectionLost err = WARNING_Printf (''Connection lost: '' @ err)"

definition OnReconnecting :: "event list" where
  "OnReconnecting = [Printed Stdout (''Attempting to reconnect'' @ newline)]"

text \<open>
  The \<open>select\<close> at the end of \<open>connect\<close>: \<open>subscribed\<close> is closed only after a
  subscribe token without error; otherwise the timer's case runs. Both cases fall
  through to \<open>return client, nil\<close>.
\<close>

definition waitSubscribed :: "env \<Rightarrow> string \<Rightarrow> event list" where
  "waitSubscribed e ackTopic =
     TimeAfter TIMEOUT #
     (case subscribeReply e of
        SubscribeOk \<Rightarrow> []
      | _ \<Rightarrow>
          Received TimerFires #
          ERROR_Printf (''Timed out while waiting to subscribe to '' @ quoted ackTopic))"

definition connect ::
  "env \<Rightarrow> config \<Rightarrow> string \<Rightarrow> bool \<Rightarrow> string \<Rightarrow> event list \<times> (string + client) result" where
  "connect e config clientID isAckExpected host =
     (let brokerUrl = ''ssl://'' @ cfgHostname config @ '':'' @ fmt_d (cfgPort config);
          ackTopic = ''indy-switch/'' @ host @ ''/ack'';
          connecting =
            INFO_Printf e (''Connecting to '' @ quoted brokerUrl @ '' as user '' @
                           quoted (cfgUsername config) @ '' with client ID '' @
                           quoted clientID) @
            [ClientConnect brokerUrl clientID, ConnectTokenDone (connectError e)]
      in case connectError e of
           Some err \<Rightarrow> (connecting, Returned (Inl err))
         | None \<Rightarrow>
             (connecting @ OnConnect e isAckExpected ackTopic @
              (if isAckExpected then waitSubscribed e ackTopic else []),
              Returned (Inr (Client brokerUrl clientID))))"

section \<open>Publishing and watching for the ack\<close>

datatype outcome =
    PublishFailed string
  | PublishInterrupted
  | PublishedNoAckRequired
  | AcknowledgedSuccess "string option"
  | AcknowledgedFailure int string
  | AckTimeout
  | WaitInterrupted
  | Panicked

text \<open>
  The outcome names the branch of \<open>main\<close> that decided the run: the publish token
  came back with an error; the interrupt won the first \<open>select\<close>; the publish
  succeeded and no ack is expected; the expected ack came with status 200 (with the
  error of the ack handler, if any) or with another status and its message; the timer
  or the interrupt won the second \<open>select\<close>; or a goroutine panicked while \<open>main\<close>
  was in the second \<open>select\<close>, which ends the process.
\<close>

definition STATUS_CODE_OK :: int where
  "STATUS_CODE_OK = 200"

definition DISCONNECT_WAIT :: nat where
  "DISCONNECT_WAIT = 250"

definition HandleAck :: "env \<Rightarrow> command \<Rightarrow> string \<Rightarrow> event list \<times> string option" where
  "HandleAck e command content =
     (case AckHandler command of
        Some (GetStatusAckHandler all) \<Rightarrow>
          (case statusHandler e all content of
             (printed, err) \<Rightarrow> (map (Printed Stdout) printed, err))
      | None \<Rightarrow> ([], None))"

definition prettifyJSON :: "env \<Rightarrow> string \<Rightarrow> event list \<times> string" where
  "prettifyJSON e source =
     (case jsonIndent e source of
        Inl err \<Rightarrow>
          (ERROR_Printf (''Unable to prettify '' @ quoted source @ '': '' @ err), [])
      | Inr pretty \<Rightarrow> ([], pretty))"

text \<open>
  The subscription's message handler: it shows the payload when \<open>Verbose\<close>, decodes
  it, and forwards the ack on \<open>ackCh\<close> (\<open>Some\<close>) unless decoding failed.
\<close>

definition onAckMessage :: "env \<Rightarrow> string \<Rightarrow> event list \<times> ack_message option" where
  "onAckMessage e payload =
     (let shown =
            (if Verbose e then
               (case prettifyJSON e payload of
                  (es, prettyJSON) \<Rightarrow>
                    es @ INFO_Printf e (''ACK received:'' @ newline @ prettyJSON))
             else [])
      in case jsonUnmarshalAck e payload of
           Inl err \<Rightarrow>
             (shown @ ERROR_Printf (''ACK could not be parsed: '' @ err) @
              [Printed Stderr (payload @ newline)], None)
         | Inr ack \<Rightarrow> (shown, Some ack))"

text \<open>
  The body of the watching goroutine's loop for one ack read from \<open>ackCh\<close>:
  \<open>None\<close> when the loop goes on to the next ack, \<open>Some\<close> with the outcome when it
  closes \<open>acked\<close> and returns.
\<close>

definition ackLoopBody :: "env \<Rightarrow> command \<Rightarrow> ack_message \<Rightarrow> (event list \<times> outcome) option" where
  "ackLoopBody e cmd ack =
     (if ID ack = MessageID (Header (Message cmd)) then
        (if StatusCode ack = STATUS_CODE_OK then
           (case HandleAck e cmd (Content_ack ack) of
              (handled, err) \<Rightarrow>
                Some (INFO_Printf e ''Message was successfully acknowledged'' @
                      (if length (Message_ack ack) > 0
                       then [Printed Stdout (Message_ack ack @ newline)] else []) @
                      [HandleAckCalled (Content_ack ack)] @ handled @
                      (case err of
                         Some msg \<Rightarrow> ERROR_Printf (''Failed to handle ack: '' @ msg)
                       | None \<Rightarrow> []),
                      AcknowledgedSuccess err))
         else
           Some (ERROR_Printf (''ACK error code '' @ fmt_d (StatusCode ack) @ '': '' @
                               Message_ack ack),
                 AcknowledgedFailure (StatusCode ack) (Message_ack ack)))
      else None)"

text \<open>
  The second \<open>select\<close> of \<open>main\<close> together with the watching goroutine and the
  client's handlers, over the events that arrive while \<open>main\<close> waits.
  \<open>time.After(TIMEOUT)\<close> fires when nothing else ends the wait, so an exhausted list
  ends in the timeout. \<open>watchFrom\<close> carries the two pieces of state the handlers
  share: \<open>connectionLost\<close>, and whether the channel \<open>subscribed\<close> is closed.
  When the link comes back the \<open>OnConnect\<close> handler runs again; if an ack is
  expected it subscribes again, and after a subscribe token without error its
  goroutine closes \<open>subscribed\<close>: closing a channel that is closed already is a
  panic, which ends the process with status 2.
\<close>

fun watchFrom :: "bool \<Rightarrow> bool \<Rightarrow> env \<Rightarrow> command \<Rightarrow> wait_event list \<Rightarrow> event list \<times> outcome" where
  "watchFrom connectionLost closed e cmd [] =
     (Received TimerFires # ERROR_Printf ''Timed out while waiting for ACK'', AckTimeout)"
| "watchFrom connectionLost closed e cmd (TimerFires # evs) =
     (Received TimerFires # ERROR_Printf ''Timed out while waiting for ACK'', AckTimeout)"
| "watchFrom connectionLost closed e cmd (SignalArrives # evs) =
     ([Received SignalArrives,
       Printed Stdout (''Interrupt signal received. Exiting...'' @ newline)],
      WaitInterrupted)"
| "watchFrom connectionLost closed e cmd (MessageArrives payload # evs) =
     (case onAckMessage e payload of
        (shown, None) \<Rightarrow>
          (case watchFrom connectionLost closed e cmd evs of
             (es, oc) \<Rightarrow> (Received (MessageArrives payload) # shown @ es, oc))
      | (shown, Some ack) \<Rightarrow>
          (case ackLoopBody e cmd ack of
             None \<Rightarrow>
               (case watchFrom connectionLost closed e cmd evs of
                  (es, oc) \<Rightarrow> (Received (MessageArrives payload) # shown @ es, oc))
           | Some (es, oc) \<Rightarrow> (Received (MessageArrives payload) # shown @ es, oc)))"
| "watchFrom connectionLost closed e cmd (ConnectionLost err # evs) =
     (case watchFrom True closed e cmd evs of
        (es, oc) \<Rightarrow> (Received (ConnectionLost err) # OnConnectionLost err @ es, oc))"
| "watchFrom connectionLost closed e cmd (Reconnecting # evs) =
     (case watchFrom connectionLost closed e cmd evs of
        (es, oc) \<Rightarrow> (Received Reconnecting # OnReconnecting @ es, oc))"
| "watchFrom connectionLost closed e cmd (Reconnected reply # evs) =
     (let handled =
            Received (Reconnected reply) #
            OnConnectHandler e connectionLost (IsAckExpected cmd)
              (''indy-switch/'' @ Host cmd @ ''/ack'') reply;
          closes = (IsAckExpected cmd \<and> reply = SubscribeOk)
      in if closes \<and> closed then
           (handled @ [Panic ''close of closed channel'', OsExit 2], Panicked)
         else
           (case watchFrom False (closed \<or> closes) e cmd evs of
              (es, oc) \<Rightarrow> (handled @ es, oc)))"

text \<open>
  When \<open>main\<close> enters the second \<open>select\<close>, \<open>OnConnect\<close> has run once, so
  \<open>connectionLost\<close> is false, and \<open>subscribed\<close> is closed exactly when the first
  subscription was confirmed.
\<close>

definition watch :: "env \<Rightarrow> command \<Rightarrow> wait_event list \<Rightarrow> event list \<times> outcome" where
  "watch e cmd evs = watchFrom False (subscribeReply e = SubscribeOk) e cmd evs"

definition marshalToJSONString :: "env \<Rightarrow> message \<Rightarrow> event list \<times> string result" where
  "marshalToJSONString e source =
     (case jsonMarshalIndent e source of
        Inl err \<Rightarrow> ERROR_Fatalf (''Unable to format JSON: '' @ err)
      | Inr jsonBytes \<Rightarrow> ([], Returned jsonBytes))"

text \<open>The first \<open>select\<close> of \<open>main\<close>; the result is \<open>publishSuccess\<close>.\<close>

definition waitPublish :: "env \<Rightarrow> event list \<times> (bool \<times> outcome)" where
  "waitPublish e =
     (case publishWait e of
        TokenDone (Some err) \<Rightarrow>
          (PublishTokenDone (Some err) # ERROR_Printf (''Failed to publish: '' @ err),
           (False, PublishFailed err))
      | TokenDone None \<Rightarrow>
          (PublishTokenDone None # INFO_Printf e ''Message published successfully'',
           (True, PublishedNoAckRequired))
      | InterruptFirst \<Rightarrow>
          ([Received SignalArrives,
            Printed Stdout (''Interrupt signal received. Exiting...'' @ newline)],
           (False, PublishInterrupted)))"

text \<open>
  Lines 64 to 141 of \<open>main\<close>: from marshaling the message to the disconnect. A panic
  during the second \<open>select\<close> ends the process there, with status 2.
\<close>

definition publishAndWatch :: "env \<Rightarrow> command \<Rightarrow> client \<Rightarrow> event list \<times> outcome result" where
  "publishAndWatch e cmd cl =
     (case jsonMarshal e (Message cmd) of
        Inl err \<Rightarrow> ERROR_Fatalf (''Error marshaling message: '' @ err)
      | Inr messageBytes \<Rightarrow>
          andThen
            (if Verbose e then
               andThen (INFO_Printf e (''Publishing to topic '' @ quoted (Topic cmd)),
                        Returned ()) (\<lambda>_.
               andThen (marshalToJSONString e (Message cmd)) (\<lambda>prettyJSON.
                 (INFO_Printf e (''Message:'' @ newline @ prettyJSON), Returned ())))
             else ([], Returned ())) (\<lambda>_.
            (case waitPublish e of
               (published, (publishSuccess, oc)) \<Rightarrow>
                 (case (if IsAckExpected cmd \<and> publishSuccess
                        then (case watch e cmd (ackWait e) of
                                (es, oc') \<Rightarrow>
                                  (INFO_Printf e ''Watching for ACK'' @
                                   [TimeAfter TIMEOUT] @ es, oc'))
                        else ([], oc)) of
                    (watched, final) \<Rightarrow>
                      (if final = Panicked then
                         ([ClientPublish (Topic cmd) (QOS cmd) False messageBytes] @
                          published @ watched,
                          Exited 2)
                       else
                         ([ClientPublish (Topic cmd) (QOS cmd) False messageBytes] @
                          published @ watched @
                          [ClientDisconnect DISCONNECT_WAIT] @
                          INFO_Printf e ''Disconnected from broker'',
                          Returned final))))))"

definition main :: "env \<Rightarrow> event list \<times> outcome result" where
  "main e =
     andThen (parseCommandLine e) (\<lambda>args.
     andThen (LoadConfig e) (\<lambda>config.
     andThen (case osHostname e of
                Inl err \<Rightarrow> ERROR_Fatalf ''Unable to lookup hostname''
              | Inr hostname \<Rightarrow> ([], Returned hostname)) (\<lambda>hostname.
       (let clientID = hostname @ ''-'' @ binaryName e in
        andThen (case NewCommand (draws e) (now e) (readSuntimes e) clientID args of
                   Inl err \<Rightarrow> PrintFatalUsage e err
                 | Inr cmd \<Rightarrow> ([], Returned cmd)) (\<lambda>cmd.
        andThen (andThen (connect e config clientID (IsAckExpected cmd) (Host cmd)) (\<lambda>r.
                   case r of
                     Inl err \<Rightarrow> ERROR_Fatalf (''Unable to connect: '' @ err)
                   | Inr cl \<Rightarrow> ([], Returned cl))) (\<lambda>cl.
          publishAndWatch e cmd cl))))))"

section \<open>Example runs\<close>

text \<open>
  A concrete invocation, \<open>indy-mqtt esp-vorona switch on\<close>, in which everything
  succeeds: a stale ack for another message arrives first, then the ack of the
  command with status 200. The payloads are named rather than written as JSON
  (\<open>exampleDecode\<close> is what \<open>json.Unmarshal\<close> makes of them); the other runs
  used below differ from this one in single fields.
\<close>

definition exampleDecode :: "string \<Rightarrow> string + ack_message" where
  "exampleDecode payload =
     (if payload = ''ack-ok'' then
        Inr \<lparr>ID = ''pc-indy-mqtt-A18F-6D4B'', StatusCode = 200,
             Message_ack = [], Content_ack = ''{}''\<rparr>
      else if payload = ''ack-busy'' then
        Inr \<lparr>ID = ''pc-indy-mqtt-A18F-6D4B'', StatusCode = 500,
             Message_ack = ''device busy'', Content_ack = ''{}''\<rparr>
      else if payload = ''ack-stale'' then
        Inr \<lparr>ID = ''pc-indy-mqtt-0000-0000'', StatusCode = 200,
             Message_ack = [], Content_ack = ''{}''\<rparr>
      else Inl ''invalid character'')"

definition switch_on_run :: env where
  "switch_on_run =
     \<lparr>binaryName = ''indy-mqtt'', flagParse = FlagsParsed,
      printHelp = False, printVersion = False,
      Verbose = False, flagArgs = [''esp-vorona'', ''switch'', ''on''],
      versionLine = ''indy-mqtt v.0.0.1'',
      configFile = Loaded \<lparr>Hostname = Some ''broker.example.org'', Port = Some 8883\<rparr>,
      secretsFile = Loaded \<lparr>Username = Some ''foobar'', Password = Some ''changeme''\<rparr>,
      osHostname = Inr ''pc'',
      unicodeToTitle = (\<lambda>r. r),
      draws = (\<lambda>i. 7 * i + 10),
      now = ''2024-01-17T10:57:55-06:00'',
      readSuntimes = (\<lambda>filename. Inl ''unable to open''),
      connectError = None,
      subscribeReply = SubscribeOk,
      jsonMarshal = (\<lambda>m. Inr ''{message}''),
      jsonMarshalIndent = (\<lambda>m. Inr ''{ message }''),
      publishWait = TokenDone None,
      ackWait = [MessageArrives ''ack-stale'', MessageArrives ''ack-ok''],
      jsonIndent = (\<lambda>source. Inr source),
      jsonUnmarshalAck = exampleDecode,
      statusHandler = (\<lambda>all content. ([], None))\<rparr>"

text \<open>The command and the client of that run.\<close>

definition switch_on_command :: command where
  "switch_on_command =
     \<lparr>Host = ''esp-vorona'', Topic = ''indy-switch/esp-vorona/control'', QOS = 2,
      Message = \<lparr>Header = \<lparr>MessageID = ''pc-indy-mqtt-A18F-6D4B'',
                            Timestamp = ''2024-01-17T10:57:55-06:00''\<rparr>,
                 Content = ControlContent True\<rparr>,
      IsAckExpected = True, AckHandler = None\<rparr>"

definition example_client :: client where
  "example_client = Client ''ssl://broker.example.org:8883'' ''pc-indy-mqtt''"

text \<open>The config of that run, and the command of \<open>indy-mqtt esp-vorona restart\<close>.\<close>

definition example_config :: config where
  "example_config =
     \<lparr>cfgHostname = ''broker.example.org'', cfgPort = 8883,
      cfgUsername = ''foobar'', cfgPassword = ''changeme''\<rparr>"

definition restart_command :: command where
  "restart_command =
     \<lparr>Host = ''esp-vorona'', Topic = ''indy-switch/esp-vorona/restart'', QOS = 2,
      Message = \<lparr>Header = \<lparr>MessageID = ''pc-indy-mqtt-A18F-6D4B'',
                            Timestamp = ''2024-01-17T10:57:55-06:00''\<rparr>,
                 Content = RestartContent False\<rparr>,
      IsAckExpected = False, AckHandler = None\<rparr>"

section \<open>Notions used in the statements\<close>

text \<open>
  \<open>hexchar raw\<close> is the character \<open>GenerateHexSuffix\<close> prints for a draw, and
  \<open>draws_of\<close> turns a list of draws into a generator.
\<close>

definition hexchar :: "nat \<Rightarrow> char" where
  "hexchar raw = upperhex ! (raw mod 16)"

definition draws_of :: "nat list \<Rightarrow> nat \<Rightarrow> nat" where
  "draws_of xs i = (if i < length xs then xs ! i else 0)"

fun isPublish :: "event \<Rightarrow> bool" where
  "isPublish (ClientPublish _ _ _ _) = True"
| "isPublish _ = False"

fun isSubscribe :: "event \<Rightarrow> bool" where
  "isSubscribe (ClientSubscribe _ _) = True"
| "isSubscribe _ = False"

fun isDisconnect :: "event \<Rightarrow> bool" where
  "isDisconnect (ClientDisconnect _) = True"
| "isDisconnect _ = False"

fun isHandleAckCalled :: "event \<Rightarrow> bool" where
  "isHandleAckCalled (HandleAckCalled _) = True"
| "isHandleAckCalled _ = False"




text \<open>The trace ends the way \<open>ERROR.Fatalf\<close> ends a process.\<close>

definition endedByFatalf :: "event list \<Rightarrow> bool" where
  "endedByFatalf es =
     (case rev es of
        OsExit c # Logged st prefix msg # _ \<Rightarrow> c = 1 \<and> st = Stderr \<and> prefix = ''ERROR: ''
      | _ \<Rightarrow> False)"

text \<open>
  The message of the command can be marshalled: \<open>json.Marshal\<close> succeeds, and so
  does \<open>json.MarshalIndent\<close> when \<open>Verbose\<close> asks for it.
\<close>

definition marshalled :: "env \<Rightarrow> command \<Rightarrow> bool" where
  "marshalled e cmd =
     (\<not> isl (jsonMarshal e (Message cmd)) \<and>
      (if Verbose e then \<not> isl (jsonMarshalIndent e (Message cmd)) else True))"

fun isInfo :: "event \<Rightarrow> bool" where
  "isInfo (Logged st prefix _) = (st = Stdout \<and> prefix = ''INFO: '')"
| "isInfo _ = False"

text \<open>
  An event that belongs to the time before a session is connected: no subscription,
  no publish, no call of the ack handler, no disconnect, no successful connect token.
\<close>

fun beforeSession :: "event \<Rightarrow> bool" where
  "beforeSession (ClientSubscribe _ _) = False"
| "beforeSession (SubscribeTokenDone _) = False"
| "beforeSession (ClientPublish _ _ _ _) = False"
| "beforeSession (PublishTokenDone _) = False"
| "beforeSession (HandleAckCalled _) = False"
| "beforeSession (ClientDisconnect _) = False"
| "beforeSession (Panic _) = False"
| "beforeSession (ConnectTokenDone r) = (r \<noteq> None)"
| "beforeSession _ = True"

text \<open>The broker URL and the client that \<open>connect\<close> makes of a config.\<close>

definition brokerUrlOf :: "config \<Rightarrow> string" where
  "brokerUrlOf c = ''ssl://'' @ cfgHostname c @ '':'' @ fmt_d (cfgPort c)"

text \<open>
  How far a run gets. \<open>pastCommandLine\<close>: the command line parses and asks neither
  for the help nor for the version. \<open>reachesConnect e cfg hostname cmd\<close>: moreover
  the config loads as \<open>cfg\<close>, the host name is \<open>hostname\<close>, and the arguments make
  the command \<open>cmd\<close>. \<open>reachesPublish\<close>: moreover the connect succeeds and the
  message can be marshalled, so that \<open>client.Publish\<close> is called.
\<close>

definition pastCommandLine :: "env \<Rightarrow> bool" where
  "pastCommandLine e = (flagParse e = FlagsParsed \<and> \<not> printHelp e \<and> \<not> printVersion e)"

definition commandOf :: "env \<Rightarrow> string \<Rightarrow> string + command" where
  "commandOf e hostname =
     NewCommand (draws e) (now e) (readSuntimes e) (hostname @ ''-'' @ binaryName e)
       (flagArgs e)"

definition reachesConnect :: "env \<Rightarrow> config \<Rightarrow> string \<Rightarrow> command \<Rightarrow> bool" where
  "reachesConnect e cfg hostname cmd =
     (pastCommandLine e \<and> LoadConfig e = ([], Returned cfg) \<and>
      osHostname e = Inr hostname \<and> commandOf e hostname = Inr cmd)"

definition reachesPublish :: "env \<Rightarrow> config \<Rightarrow> string \<Rightarrow> command \<Rightarrow> bool" where
  "reachesPublish e cfg hostname cmd =
     (reachesConnect e cfg hostname cmd \<and> connectError e = None \<and> marshalled e cmd)"

text \<open>
  The run panics: an ack is expected, the publish is confirmed, and while \<open>main\<close>
  watches for the ack a reconnect closes \<open>subscribed\<close> a second time.
\<close>

definition panics :: "env \<Rightarrow> command \<Rightarrow> bool" where
  "panics e cmd =
     (IsAckExpected cmd \<and> publishWait e = TokenDone None \<and>
      snd (watch e cmd (ackWait e)) = Panicked)"

section \<open>The text of a usage error\<close>

text \<open>
  Three runs of \<open>capitalizeFirstLetter\<close>: an ASCII message, as \<open>NewCommand\<close>
  returns them; a message that starts with a byte that is not UTF-8, which comes back
  as the encoding of \<open>U+FFFD\<close>; and a message that starts with a letter outside
  ASCII, here with a table that maps \<open>U+00E9\<close> to \<open>U+00C9\<close>.
\<close>

lemma runesOf_nonempty: "input \<noteq> [] \<Longrightarrow> runesOf input \<noteq> []"
  by (cases input) (simp_all split: prod.splits)

lemma capitalizeFirstLetter_ascii:
  "capitalizeFirstLetter (\<lambda>r. r) ''invalid command'' = ''Invalid command''"
  by (simp add: capitalizeFirstLetter_def decodeRune_def ToTitle_def stringOf_def
      encodeRune_def char_of_def bit_0 Let_def)

lemma capitalizeFirstLetter_invalid_byte:
  "capitalizeFirstLetter (\<lambda>r. r) [char_of (255 :: nat), CHR ''a''] =
     [char_of (239 :: nat), char_of (191 :: nat), char_of (189 :: nat), CHR ''a'']"
  by (simp add: capitalizeFirstLetter_def decodeRune_def ToTitle_def stringOf_def
      encodeRune_def RuneError_def char_of_def bit_0 Let_def)

lemma capitalizeFirstLetter_latin:
  "capitalizeFirstLetter (\<lambda>r. if r = 233 then 201 else r)
     [char_of (195 :: nat), char_of (169 :: nat), CHR ''t'', CHR ''a'', CHR ''t''] =
     [char_of (195 :: nat), char_of (137 :: nat), CHR ''t'', CHR ''a'', CHR ''t'']"
  by (simp add: capitalizeFirstLetter_def decodeRune_def continuation_def ToTitle_def
      stringOf_def encodeRune_def RuneError_def char_of_def bit_0 Let_def)

section \<open>The correlation id\<close>

lemma fmt_X_digit: "n < 16 \<Longrightarrow> fmt_X n = [upperhex ! n]"
  by (simp add: fmt_X.simps)

lemma distinct_upperhex: "distinct upperhex"
  by (simp add: upperhex_def)

lemma length_upperhex: "length upperhex = 16"
  by (simp add: upperhex_def)

lemma upperhex_inj: "i < 16 \<Longrightarrow> j < 16 \<Longrightarrow> upperhex ! i = upperhex ! j \<longleftrightarrow> i = j"
  by (simp add: nth_eq_iff_index_eq distinct_upperhex length_upperhex)

lemma hexchar_in: "hexchar r \<in> set upperhex"
  unfolding hexchar_def by (rule nth_mem) (simp add: length_upperhex)

lemma hexchar_eq: "hexchar r = hexchar r' \<longleftrightarrow> r mod 16 = r' mod 16"
  unfolding hexchar_def by (rule upperhex_inj) simp_all

lemma upt8: "[0..<8] = [0,1,2,3,4,5,6,7]"
  by (simp add: upt_rec)

lemma GenerateHexSuffix_eq:
  "GenerateHexSuffix ds =
     [hexchar (ds 0), hexchar (ds 1), hexchar (ds 2), hexchar (ds 3), CHR ''-'',
      hexchar (ds 4), hexchar (ds 5), hexchar (ds 6), hexchar (ds 7)]"
proof -
  have b: "byte (Intn HEX_BOUND r) = r mod 16" for r
    by (simp add: byte_def Intn_def HEX_BOUND_def mod_mod_cancel)
  have f: "fmt_X (r mod 16) = [hexchar r]" for r
    by (simp add: fmt_X_digit hexchar_def)
  show ?thesis
    by (simp add: GenerateHexSuffix_def HEX_COUNT_def upt8 b f)
qed

lemma suffix_inj:
  "GenerateHexSuffix r = GenerateHexSuffix r' \<longleftrightarrow> (\<forall>i<8. r i mod 16 = r' i mod 16)"
proof -
  have "(\<forall>i<8. r i mod 16 = r' i mod 16) \<longleftrightarrow> (\<forall>i \<in> set [0..<8]. r i mod 16 = r' i mod 16)"
    by auto
  also have "\<dots> \<longleftrightarrow> GenerateHexSuffix r = GenerateHexSuffix r'"
    unfolding upt8 by (simp add: GenerateHexSuffix_eq hexchar_eq)
  finally show ?thesis by simp
qed

lemma range_suffix:
  "range GenerateHexSuffix =
     (\<lambda>xs. map (\<lambda>x. upperhex ! x) (take 4 xs) @ ''-'' @ map (\<lambda>x. upperhex ! x) (drop 4 xs)) `
       {xs. set xs \<subseteq> {..<16} \<and> length xs = 8}"
  (is "?L = ?h ` ?S")
proof
  show "?L \<subseteq> ?h ` ?S"
  proof
    fix s assume "s \<in> ?L"
    then obtain r where s: "s = GenerateHexSuffix r" by auto
    let ?xs = "map (\<lambda>i. r i mod 16) [0..<8]"
    have "?xs \<in> ?S" by auto
    moreover have "s = ?h ?xs"
      unfolding s upt8 by (simp add: GenerateHexSuffix_eq hexchar_def)
    ultimately show "s \<in> ?h ` ?S" by blast
  qed
  show "?h ` ?S \<subseteq> ?L"
  proof
    fix s assume "s \<in> ?h ` ?S"
    then obtain xs where xs: "set xs \<subseteq> {..<16}" "length xs = 8" and s: "s = ?h xs" by auto
    from xs(2) obtain a b c d e f g h where l: "xs = [a,b,c,d,e,f,g,h]"
      by (auto simp: length_Suc_conv eval_nat_numeral)
    have "s = GenerateHexSuffix (draws_of xs)"
      using xs(1) unfolding s l by (simp add: GenerateHexSuffix_eq hexchar_def draws_of_def)
    then show "s \<in> ?L" by blast
  qed
qed

lemma card_suffix: "card (range GenerateHexSuffix) = 2 ^ 32"
proof -
  let ?h = "\<lambda>xs. map (\<lambda>x. upperhex ! x) (take 4 xs) @ ''-'' @ map (\<lambda>x. upperhex ! x) (drop 4 xs)"
  let ?S = "{xs. set xs \<subseteq> {..<(16::nat)} \<and> length xs = 8}"
  have inj: "inj_on ?h ?S"
  proof (rule inj_onI)
    fix xs ys assume a: "xs \<in> ?S" "ys \<in> ?S" "?h xs = ?h ys"
    have m: "inj_on (\<lambda>x. upperhex ! x) {..<16}"
      by (rule inj_onI) (simp add: upperhex_inj)
    from a have "map (\<lambda>x. upperhex ! x) (take 4 xs) = map (\<lambda>x. upperhex ! x) (take 4 ys)"
      and "map (\<lambda>x. upperhex ! x) (drop 4 xs) = map (\<lambda>x. upperhex ! x) (drop 4 ys)"
      by simp_all
    then have "map (\<lambda>x. upperhex ! x) xs = map (\<lambda>x. upperhex ! x) ys"
      by (metis append_take_drop_id map_append)
    moreover have "inj_on (\<lambda>x. upperhex ! x) (set xs \<union> set ys)"
      using a(1,2) by (auto intro: inj_on_subset [OF m])
    ultimately show "xs = ys" by (rule inj_on_map_eq_map [THEN iffD1, rotated])
  qed
  have "card (range GenerateHexSuffix) = card ?S"
    unfolding range_suffix by (rule card_image [OF inj])
  also have "\<dots> = 16 ^ 8"
    using card_lists_length_eq [of "{..<(16::nat)}" 8] by simp
  finally show ?thesis by simp
qed

text \<open>
  C9. The message id of a new message is the client id, a hyphen, and the suffix of
  \<open>GenerateHexSuffix\<close>: four upper-case hexadecimal digits, a hyphen, four more. Two
  runs of the generator give the same suffix exactly when their first eight draws
  agree modulo 16, and every such grouping is produced, so there are \<open>2 ^ 32\<close>
  suffixes: the formatting keeps all 32 bits of the eight draws. The function is total
  and has no error result.
\<close>

theorem correlation_id_suffix:
  "MessageID (Header (NewMessage ds t clientID c)) = clientID @ ''-'' @ GenerateHexSuffix ds \<and>
   (\<exists>a b c d e f g h. set [a, b, c, d, e, f, g, h] \<subseteq> set upperhex \<and>
      GenerateHexSuffix ds = [a, b, c, d, CHR ''-'', e, f, g, h]) \<and>
   (GenerateHexSuffix ds = GenerateHexSuffix ds' \<longleftrightarrow> (\<forall>i<8. ds i mod 16 = ds' i mod 16)) \<and>
   card (range GenerateHexSuffix) = 2 ^ 32"
proof -
  have "\<exists>a b c d e f g h. set [a, b, c, d, e, f, g, h] \<subseteq> set upperhex \<and>
      GenerateHexSuffix ds = [a, b, c, d, CHR ''-'', e, f, g, h]"
    unfolding GenerateHexSuffix_eq using hexchar_in by fastforce
  then show ?thesis
    using suffix_inj [of ds ds'] card_suffix by (simp add: NewMessage_def)
qed

theorem correlation_id_suffix_witness:
  "MessageID (Header (NewMessage (\<lambda>i. 7 * i + 10) ''2024-01-17T10:57:55-06:00''
      ''pc-indy-mqtt'' EmptyContent)) = ''pc-indy-mqtt-A18F-6D4B'' \<and>
   GenerateHexSuffix (\<lambda>i. 7 * i + 10) \<noteq> GenerateHexSuffix (\<lambda>i. 7 * i + 11) \<and>
   GenerateHexSuffix (\<lambda>i. 7 * i + 10) = GenerateHexSuffix (\<lambda>i. 7 * i + 26)"
  using correlation_id_suffix [of "\<lambda>i. 7 * i + 10" "''2024-01-17T10:57:55-06:00''"
      "''pc-indy-mqtt''" EmptyContent "\<lambda>i. 7 * i + 11"]
  by (simp add: GenerateHexSuffix_eq hexchar_def upperhex_def)

section \<open>Restart and reset\<close>

text \<open>
  C10. For every host, \<open>restart\<close> and \<open>reset\<close> without further arguments build
  commands for the same topic \<open>indy-switch/{host}/restart\<close>, with QoS 2 and no ack
  expected; the restart command carries \<open>reset = false\<close>, and the reset command is
  the restart command with the content \<open>reset = true\<close> and nothing else changed.
  With further arguments both are refused.
\<close>

theorem reset_publishes_to_restart_topic:
  "\<exists>c. NewCommand ds t rs clientID [host, ''restart''] = Inr c \<and>
        NewCommand ds t rs clientID [host, ''reset''] =
          Inr (c\<lparr>Message := (Message c)\<lparr>Content := RestartContent True\<rparr>\<rparr>) \<and>
        Topic c = ''indy-switch/'' @ host @ ''/restart'' \<and>
        Content (Message c) = RestartContent False \<and>
        IsAckExpected c = False \<and> QOS c = 2 \<and> Host c = host \<and>
        isl (NewCommand ds t rs clientID (host # ''restart'' # a # args)) \<and>
        isl (NewCommand ds t rs clientID (host # ''reset'' # a # args))"
  by (simp add: NewCommand_def NewRestartCommand_def NewResetCommand_def NewMessage_def)

section \<open>Watching for the ack\<close>

lemma andThen_Exited [simp]: "andThen (es, Exited c) f = (es, Exited c)"
  by (simp add: andThen_def)

lemma andThen_Returned [simp]: "andThen (es, Returned a) f = (es @ fst (f a), snd (f a))"
  by (simp add: andThen_def split: prod.splits)

lemma watchFrom_mismatch:
  assumes "jsonUnmarshalAck e p = Inr ack" "ID ack \<noteq> MessageID (Header (Message cmd))"
  shows "watchFrom l c e cmd (MessageArrives p # evs) =
           (Received (MessageArrives p) # fst (onAckMessage e p) @ fst (watchFrom l c e cmd evs),
            snd (watchFrom l c e cmd evs))"
  using assms by (simp add: onAckMessage_def ackLoopBody_def Let_def split: prod.splits)

lemma watchFrom_unparsed:
  assumes "jsonUnmarshalAck e p = Inl err"
  shows "watchFrom l c e cmd (MessageArrives p # evs) =
           (Received (MessageArrives p) # fst (onAckMessage e p) @ fst (watchFrom l c e cmd evs),
            snd (watchFrom l c e cmd evs))"
  using assms by (simp add: onAckMessage_def Let_def split: prod.splits)

lemma watchFrom_match:
  assumes "jsonUnmarshalAck e p = Inr ack" "ID ack = MessageID (Header (Message cmd))"
  shows "\<exists>es oc. ackLoopBody e cmd ack = Some (es, oc) \<and>
           watchFrom l c e cmd (MessageArrives p # evs) =
             (Received (MessageArrives p) # fst (onAckMessage e p) @ es, oc)"
  using assms by (simp add: onAckMessage_def ackLoopBody_def Let_def split: prod.splits)

lemma watchFrom_lost:
  "watchFrom l c e cmd (ConnectionLost err # evs) =
     (Received (ConnectionLost err) # OnConnectionLost err @ fst (watchFrom True c e cmd evs),
      snd (watchFrom True c e cmd evs))"
  by (simp split: prod.splits)

lemma watchFrom_reconnecting:
  "watchFrom l c e cmd (Reconnecting # evs) =
     (Received Reconnecting # OnReconnecting @ fst (watchFrom l c e cmd evs),
      snd (watchFrom l c e cmd evs))"
  by (simp split: prod.splits)

lemma watchFrom_panic:
  "IsAckExpected cmd \<and> reply = SubscribeOk \<and> c \<Longrightarrow>
     watchFrom l c e cmd (Reconnected reply # evs) =
       (Received (Reconnected reply) #
        OnConnectHandler e l (IsAckExpected cmd) (''indy-switch/'' @ Host cmd @ ''/ack'') reply @
        [Panic ''close of closed channel'', OsExit 2], Panicked)"
  by (simp add: Let_def)

lemma watchFrom_reconnected:
  "\<not> (IsAckExpected cmd \<and> reply = SubscribeOk \<and> c) \<Longrightarrow>
     watchFrom l c e cmd (Reconnected reply # evs) =
       (Received (Reconnected reply) #
        OnConnectHandler e l (IsAckExpected cmd) (''indy-switch/'' @ Host cmd @ ''/ack'') reply @
        fst (watchFrom False (c \<or> IsAckExpected cmd \<and> reply = SubscribeOk) e cmd evs),
        snd (watchFrom False (c \<or> IsAckExpected cmd \<and> reply = SubscribeOk) e cmd evs))"
  by (auto simp: Let_def split: prod.splits)


lemma OnConnect_is_first_run:
  "OnConnect e isAckExpected ackTopic =
     OnConnectHandler e False isAckExpected ackTopic (subscribeReply e)"
  by (simp add: OnConnect_def OnConnectHandler_def)





section \<open>From the publish to the disconnect\<close>

lemma no_call_in_map_Printed [simp]: "filter isHandleAckCalled (map (Printed st) xs) = []"
  by (induction xs) simp_all

lemma no_call_in_INFO [simp]: "filter isHandleAckCalled (INFO_Printf e msg) = []"
  by (simp add: INFO_Printf_def)

lemma no_call_in_ERROR [simp]: "filter isHandleAckCalled (ERROR_Printf msg) = []"
  by (simp add: ERROR_Printf_def)

lemma no_call_in_onAckMessage [simp]: "filter isHandleAckCalled (fst (onAckMessage e p)) = []"
  by (simp add: onAckMessage_def prettifyJSON_def Let_def split: sum.splits)

lemma calls_of_ackLoopBody:
  "ackLoopBody e cmd ack = Some (es, oc) \<Longrightarrow>
     filter isHandleAckCalled es =
       (if StatusCode ack = 200 then [HandleAckCalled (Content_ack ack)] else []) \<and>
     ID ack = MessageID (Header (Message cmd)) \<and>
     (StatusCode ack = 200 \<longrightarrow> (\<exists>err. oc = AcknowledgedSuccess err))"
  by (auto simp: ackLoopBody_def HandleAck_def STATUS_CODE_OK_def
      split: if_splits prod.splits option.splits ack_handler.splits)

lemma no_call_in_OnConnectHandler [simp]:
  "filter isHandleAckCalled (OnConnectHandler e l b t reply) = []"
  by (simp add: OnConnectHandler_def split: subscribe_reply.splits)

lemma no_call_in_link_handlers [simp]:
  "filter isHandleAckCalled (OnConnectionLost err) = []"
  "filter isHandleAckCalled OnReconnecting = []"
  by (simp_all add: OnConnectionLost_def WARNING_Printf_def OnReconnecting_def)

lemma calls_of_watchFrom:
  "filter isHandleAckCalled (fst (watchFrom l c e cmd evs)) = [] \<or>
   (\<exists>p ack err. MessageArrives p \<in> set evs \<and> jsonUnmarshalAck e p = Inr ack \<and>
      ID ack = MessageID (Header (Message cmd)) \<and> StatusCode ack = 200 \<and>
      filter isHandleAckCalled (fst (watchFrom l c e cmd evs)) =
        [HandleAckCalled (Content_ack ack)] \<and>
      snd (watchFrom l c e cmd evs) = AcknowledgedSuccess err)"
proof (induction evs arbitrary: l c)
  case Nil
  show ?case by simp
next
  case (Cons ev evs)
  show ?case
  proof (cases ev)
    case (MessageArrives payload)
    show ?thesis
    proof (cases "jsonUnmarshalAck e payload")
      case (Inl err)
      have "filter isHandleAckCalled (fst (watchFrom l c e cmd (MessageArrives payload # evs))) =
            filter isHandleAckCalled (fst (watchFrom l c e cmd evs))"
           "snd (watchFrom l c e cmd (MessageArrives payload # evs)) =
            snd (watchFrom l c e cmd evs)"
        unfolding watchFrom_unparsed [OF Inl] by simp_all
      then show ?thesis
        using Cons.IH [of l c] MessageArrives by auto
    next
      case (Inr ack)
      show ?thesis
      proof (cases "ID ack = MessageID (Header (Message cmd))")
        case False
        have "filter isHandleAckCalled (fst (watchFrom l c e cmd (MessageArrives payload # evs))) =
              filter isHandleAckCalled (fst (watchFrom l c e cmd evs))"
             "snd (watchFrom l c e cmd (MessageArrives payload # evs)) =
              snd (watchFrom l c e cmd evs)"
          unfolding watchFrom_mismatch [OF Inr False] by simp_all
        then show ?thesis
          using Cons.IH [of l c] MessageArrives by auto
      next
        case True
        from watchFrom_match [OF Inr True, of l c evs] obtain es oc where
          b: "ackLoopBody e cmd ack = Some (es, oc)" and
          w: "watchFrom l c e cmd (MessageArrives payload # evs) =
               (Received (MessageArrives payload) # fst (onAckMessage e payload) @ es, oc)"
          by blast
        from calls_of_ackLoopBody [OF b] show ?thesis
          unfolding MessageArrives w using Inr True by auto
      qed
    qed
  next
    case TimerFires
    then show ?thesis by simp
  next
    case SignalArrives
    then show ?thesis by simp
  next
    case (ConnectionLost err)
    have "filter isHandleAckCalled (fst (watchFrom l c e cmd (ConnectionLost err # evs))) =
          filter isHandleAckCalled (fst (watchFrom True c e cmd evs))"
         "snd (watchFrom l c e cmd (ConnectionLost err # evs)) = snd (watchFrom True c e cmd evs)"
      unfolding watchFrom_lost by simp_all
    then show ?thesis
      using Cons.IH [of True c] ConnectionLost by auto
  next
    case Reconnecting
    have "filter isHandleAckCalled (fst (watchFrom l c e cmd (Reconnecting # evs))) =
          filter isHandleAckCalled (fst (watchFrom l c e cmd evs))"
         "snd (watchFrom l c e cmd (Reconnecting # evs)) = snd (watchFrom l c e cmd evs)"
      unfolding watchFrom_reconnecting by simp_all
    then show ?thesis
      using Cons.IH [of l c] Reconnecting by auto
  next
    case (Reconnected reply)
    show ?thesis
    proof (cases "IsAckExpected cmd \<and> reply = SubscribeOk \<and> c")
      case True
      have "filter isHandleAckCalled (fst (watchFrom l c e cmd (Reconnected reply # evs))) = []"
        unfolding watchFrom_panic [OF True] by simp
      then show ?thesis
        using Reconnected by simp
    next
      case False
      let ?c = "c \<or> IsAckExpected cmd \<and> reply = SubscribeOk"
      have "filter isHandleAckCalled (fst (watchFrom l c e cmd (Reconnected reply # evs))) =
            filter isHandleAckCalled (fst (watchFrom False ?c e cmd evs))"
           "snd (watchFrom l c e cmd (Reconnected reply # evs)) =
            snd (watchFrom False ?c e cmd evs)"
        unfolding watchFrom_reconnected [OF False] by simp_all
      then show ?thesis
        using Cons.IH [of False ?c] Reconnected by auto
    qed
  qed
qed

lemma calls_of_watch:
  "filter isHandleAckCalled (fst (watch e cmd evs)) = [] \<or>
   (\<exists>p ack err. MessageArrives p \<in> set evs \<and> jsonUnmarshalAck e p = Inr ack \<and>
      ID ack = MessageID (Header (Message cmd)) \<and> StatusCode ack = 200 \<and>
      filter isHandleAckCalled (fst (watch e cmd evs)) = [HandleAckCalled (Content_ack ack)] \<and>
      snd (watch e cmd evs) = AcknowledgedSuccess err)"
  unfolding watch_def by (rule calls_of_watchFrom)

lemma publishAndWatch_marshal_error:
  "jsonMarshal e (Message cmd) = Inl err \<Longrightarrow>
     publishAndWatch e cmd cl = ERROR_Fatalf (''Error marshaling message: '' @ err)"
  by (simp add: publishAndWatch_def)

lemma publishAndWatch_indent_error:
  "jsonMarshal e (Message cmd) = Inr bytes \<Longrightarrow> Verbose e \<Longrightarrow>
   jsonMarshalIndent e (Message cmd) = Inl err \<Longrightarrow>
     publishAndWatch e cmd cl =
       (INFO_Printf e (''Publishing to topic '' @ quoted (Topic cmd)) @
        [Logged Stderr ''ERROR: '' (''Unable to format JSON: '' @ err), OsExit 1], Exited 1)"
  by (simp add: publishAndWatch_def marshalToJSONString_def ERROR_Fatalf_def)

lemma waitPublish_success:
  "fst (snd (waitPublish e)) = (publishWait e = TokenDone None)"
  "snd (snd (waitPublish e)) \<noteq> Panicked"
  by (simp_all add: waitPublish_def split: publish_wait.splits option.splits)

lemma publishAndWatch_run:
  assumes "marshalled e cmd"
  shows "\<exists>pre bytes. list_all isInfo pre \<and> jsonMarshal e (Message cmd) = Inr bytes \<and>
           publishAndWatch e cmd cl =
             (if panics e cmd then
                (pre @ ClientPublish (Topic cmd) (QOS cmd) False bytes # fst (waitPublish e) @
                 INFO_Printf e ''Watching for ACK'' @ TimeAfter TIMEOUT #
                 fst (watch e cmd (ackWait e)),
                 Exited 2)
              else
                (pre @ ClientPublish (Topic cmd) (QOS cmd) False bytes # fst (waitPublish e) @
                 (if IsAckExpected cmd \<and> fst (snd (waitPublish e))
                  then INFO_Printf e ''Watching for ACK'' @ TimeAfter TIMEOUT #
                       fst (watch e cmd (ackWait e))
                  else []) @
                 ClientDisconnect DISCONNECT_WAIT # INFO_Printf e ''Disconnected from broker'',
                 Returned (if IsAckExpected cmd \<and> fst (snd (waitPublish e))
                           then snd (watch e cmd (ackWait e))
                           else snd (snd (waitPublish e)))))"
proof -
  from assms obtain bytes where m: "jsonMarshal e (Message cmd) = Inr bytes"
    by (cases "jsonMarshal e (Message cmd)") (auto simp: marshalled_def)
  obtain published success oc where w: "waitPublish e = (published, success, oc)"
    by (cases "waitPublish e") auto
  obtain es oc' where a: "watch e cmd (ackWait e) = (es, oc')"
    by (cases "watch e cmd (ackWait e)") auto
  have s: "success = (publishWait e = TokenDone None)" "oc \<noteq> Panicked"
    using waitPublish_success [of e] w by simp_all
  show ?thesis
  proof (cases "Verbose e")
    case False
    then show ?thesis
      using m s
      by (intro exI [of _ "[]"] exI [of _ bytes])
         (simp add: publishAndWatch_def panics_def w a)
  next
    case True
    with assms obtain pretty where p: "jsonMarshalIndent e (Message cmd) = Inr pretty"
      by (cases "jsonMarshalIndent e (Message cmd)") (auto simp: marshalled_def)
    show ?thesis
      using m p True s
      by (intro exI [of _ "INFO_Printf e (''Publishing to topic '' @ quoted (Topic cmd)) @
                           INFO_Printf e (''Message:'' @ newline @ pretty)"] exI [of _ bytes])
         (simp add: publishAndWatch_def marshalToJSONString_def INFO_Printf_def panics_def w a)
  qed
qed

lemma publishAndWatch_run_calm:
  assumes "marshalled e cmd" "\<not> panics e cmd"
  shows "\<exists>pre bytes. list_all isInfo pre \<and> jsonMarshal e (Message cmd) = Inr bytes \<and>
           publishAndWatch e cmd cl =
             (pre @ ClientPublish (Topic cmd) (QOS cmd) False bytes # fst (waitPublish e) @
              (if IsAckExpected cmd \<and> fst (snd (waitPublish e))
               then INFO_Printf e ''Watching for ACK'' @ TimeAfter TIMEOUT #
                    fst (watch e cmd (ackWait e))
               else []) @
              ClientDisconnect DISCONNECT_WAIT # INFO_Printf e ''Disconnected from broker'',
              Returned (if IsAckExpected cmd \<and> fst (snd (waitPublish e))
                        then snd (watch e cmd (ackWait e))
                        else snd (snd (waitPublish e))))"
  using publishAndWatch_run [OF assms(1), of cl] assms(2) by simp


lemma waitPublish_confirmed:
  "publishWait e = TokenDone None \<Longrightarrow>
     waitPublish e = (PublishTokenDone None # INFO_Printf e ''Message published successfully'',
                      (True, PublishedNoAckRequired))"
  by (simp add: waitPublish_def)

lemma waitPublish_no_call [simp]: "filter isHandleAckCalled (fst (waitPublish e)) = []"
  by (simp add: waitPublish_def split: publish_wait.splits option.splits)

lemma no_call_in_infos: "list_all isInfo pre \<Longrightarrow> filter isHandleAckCalled pre = []"
  by (induction pre) (auto elim: isInfo.elims)








text \<open>
  C6, as the code has it. \<open>Command.HandleAck\<close> is called at most once in a run, and
  only for an ack that carries the message id of the command and the status code 200,
  with the content of that ack. What the loop body reports before the call is the
  \<open>INFO\<close> line, which is printed only when \<open>Verbose\<close> is set, and the ack's message,
  which is printed only when it is not empty; without \<open>Verbose\<close> and with an empty
  message the call of the handler is the first thing the loop body does. When the
  handler returns an error, the error is logged after the call and the outcome is
  still the success outcome, which records the error.
\<close>

theorem ack_handler_called_once_for_status_200:
  "length (filter isHandleAckCalled (fst (watch e cmd evs))) \<le> 1 \<and>
   (marshalled e cmd \<longrightarrow>
      length (filter isHandleAckCalled (fst (publishAndWatch e cmd cl))) \<le> 1) \<and>
   (HandleAckCalled c \<in> set (fst (watch e cmd evs)) \<longrightarrow>
      (\<exists>p ack err. MessageArrives p \<in> set evs \<and> jsonUnmarshalAck e p = Inr ack \<and>
         ID ack = MessageID (Header (Message cmd)) \<and> StatusCode ack = 200 \<and>
         Content_ack ack = c \<and> snd (watch e cmd evs) = AcknowledgedSuccess err)) \<and>
   (ID ack = MessageID (Header (Message cmd)) \<and> StatusCode ack = 200 \<longrightarrow>
      ackLoopBody e cmd ack =
        Some ((if Verbose e
               then [Logged Stdout ''INFO: '' ''Message was successfully acknowledged'']
               else []) @
              (if Message_ack ack \<noteq> [] then [Printed Stdout (Message_ack ack @ newline)]
               else []) @
              [HandleAckCalled (Content_ack ack)] @ fst (HandleAck e cmd (Content_ack ack)) @
              (case snd (HandleAck e cmd (Content_ack ack)) of
                 Some msg \<Rightarrow> [Logged Stderr ''ERROR: '' (''Failed to handle ack: '' @ msg)]
               | None \<Rightarrow> []),
              AcknowledgedSuccess (snd (HandleAck e cmd (Content_ack ack))))) \<and>
   (ID ack = MessageID (Header (Message cmd)) \<and> StatusCode ack = 200 \<and>
    \<not> Verbose e \<and> Message_ack ack = [] \<longrightarrow>
      (\<exists>rest. ackLoopBody e cmd ack =
         Some (HandleAckCalled (Content_ack ack) # rest,
               AcknowledgedSuccess (snd (HandleAck e cmd (Content_ack ack))))))"
proof -
  have once: "length (filter isHandleAckCalled (fst (watch e cmd evs))) \<le> 1" for evs
    using calls_of_watch [of e cmd evs] by auto
  have run: "length (filter isHandleAckCalled (fst (publishAndWatch e cmd cl))) \<le> 1"
    if "marshalled e cmd"
  proof -
    from publishAndWatch_run [OF that, of cl] obtain pre bytes where
      pre: "list_all isInfo pre" and
      run: "publishAndWatch e cmd cl =
             (if panics e cmd then
                (pre @ ClientPublish (Topic cmd) (QOS cmd) False bytes # fst (waitPublish e) @
                 INFO_Printf e ''Watching for ACK'' @ TimeAfter TIMEOUT #
                 fst (watch e cmd (ackWait e)),
                 Exited 2)
              else
                (pre @ ClientPublish (Topic cmd) (QOS cmd) False bytes # fst (waitPublish e) @
                 (if IsAckExpected cmd \<and> fst (snd (waitPublish e))
                  then INFO_Printf e ''Watching for ACK'' @ TimeAfter TIMEOUT #
                       fst (watch e cmd (ackWait e))
                  else []) @
                 ClientDisconnect DISCONNECT_WAIT # INFO_Printf e ''Disconnected from broker'',
                 Returned (if IsAckExpected cmd \<and> fst (snd (waitPublish e))
                           then snd (watch e cmd (ackWait e))
                           else snd (snd (waitPublish e)))))"
      by blast
    show ?thesis
      unfolding run using once [of "ackWait e"] by (simp add: no_call_in_infos [OF pre])
  qed
  have only: "\<exists>p ack err. MessageArrives p \<in> set evs \<and> jsonUnmarshalAck e p = Inr ack \<and>
         ID ack = MessageID (Header (Message cmd)) \<and> StatusCode ack = 200 \<and>
         Content_ack ack = c \<and> snd (watch e cmd evs) = AcknowledgedSuccess err"
    if "HandleAckCalled c \<in> set (fst (watch e cmd evs))"
  proof -
    from that have m: "HandleAckCalled c \<in> set (filter isHandleAckCalled (fst (watch e cmd evs)))"
      by simp
    from calls_of_watch [of e cmd evs] consider
      (none) "filter isHandleAckCalled (fst (watch e cmd evs)) = []"
    | (one) p ack err where "MessageArrives p \<in> set evs" "jsonUnmarshalAck e p = Inr ack"
        "ID ack = MessageID (Header (Message cmd))" "StatusCode ack = 200"
        "filter isHandleAckCalled (fst (watch e cmd evs)) = [HandleAckCalled (Content_ack ack)]"
        "snd (watch e cmd evs) = AcknowledgedSuccess err"
      by blast
    then show ?thesis
    proof cases
      case none
      with m show ?thesis by simp
    next
      case one
      from m have "c = Content_ack ack" unfolding one(5) by simp
      with one show ?thesis by blast
    qed
  qed
  have body: "ackLoopBody e cmd ack =
        Some ((if Verbose e
               then [Logged Stdout ''INFO: '' ''Message was successfully acknowledged'']
               else []) @
              (if Message_ack ack \<noteq> [] then [Printed Stdout (Message_ack ack @ newline)]
               else []) @
              [HandleAckCalled (Content_ack ack)] @ fst (HandleAck e cmd (Content_ack ack)) @
              (case snd (HandleAck e cmd (Content_ack ack)) of
                 Some msg \<Rightarrow> [Logged Stderr ''ERROR: '' (''Failed to handle ack: '' @ msg)]
               | None \<Rightarrow> []),
              AcknowledgedSuccess (snd (HandleAck e cmd (Content_ack ack))))"
    if "ID ack = MessageID (Header (Message cmd)) \<and> StatusCode ack = 200"
    using that
    by (simp add: ackLoopBody_def STATUS_CODE_OK_def INFO_Printf_def ERROR_Printf_def
        split: prod.splits option.splits)
  have silent: "\<exists>rest. ackLoopBody e cmd ack =
         Some (HandleAckCalled (Content_ack ack) # rest,
               AcknowledgedSuccess (snd (HandleAck e cmd (Content_ack ack))))"
    if "ID ack = MessageID (Header (Message cmd)) \<and> StatusCode ack = 200 \<and>
        \<not> Verbose e \<and> Message_ack ack = []"
    using that body by simp
  show ?thesis
    using once [of evs] run only body silent by blast
qed

theorem ack_handler_called_once_for_status_200_witness:
  "watch (switch_on_run\<lparr>Verbose := True,
            statusHandler := (\<lambda>all content. ([''is_on: true''], Some ''bad field''))\<rparr>)
     (switch_on_command\<lparr>AckHandler := Some (GetStatusAckHandler False)\<rparr>)
     [MessageArrives ''ack-ok'', MessageArrives ''ack-ok''] =
   ([Received (MessageArrives ''ack-ok''),
     Logged Stdout ''INFO: '' (''ACK received:'' @ newline @ ''ack-ok''),
     Logged Stdout ''INFO: '' ''Message was successfully acknowledged'',
     HandleAckCalled ''{}'',
     Printed Stdout ''is_on: true'',
     Logged Stderr ''ERROR: '' ''Failed to handle ack: bad field''],
    AcknowledgedSuccess (Some ''bad field''))"
  using ack_handler_called_once_for_status_200 [of
     "switch_on_run\<lparr>Verbose := True,
        statusHandler := (\<lambda>all content. ([''is_on: true''], Some ''bad field''))\<rparr>"
     "switch_on_command\<lparr>AckHandler := Some (GetStatusAckHandler False)\<rparr>"
     "[MessageArrives ''ack-ok'', MessageArrives ''ack-ok'']" example_client "''{}''"
     "\<lparr>ID = ''pc-indy-mqtt-A18F-6D4B'', StatusCode = 200,
             Message_ack = [], Content_ack = ''{}''\<rparr>"]
  by (simp add: switch_on_run_def switch_on_command_def exampleDecode_def onAckMessage_def
      prettifyJSON_def watch_def
      ackLoopBody_def HandleAck_def STATUS_CODE_OK_def INFO_Printf_def ERROR_Printf_def)

text \<open>
  The claim as the spec states it fails in a run without \<open>-verbose\<close> when the ack
  carries no message: the handler is called although nothing has been reported about
  the ack.
\<close>

theorem handler_called_before_any_report:
  "watch switch_on_run (switch_on_command\<lparr>AckHandler := Some (GetStatusAckHandler False)\<rparr>)
     [MessageArrives ''ack-ok''] =
   ([Received (MessageArrives ''ack-ok''), HandleAckCalled ''{}''],
    AcknowledgedSuccess None)"
  by (simp add: switch_on_run_def switch_on_command_def exampleDecode_def onAckMessage_def
      watch_def ackLoopBody_def HandleAck_def STATUS_CODE_OK_def INFO_Printf_def)

section \<open>The whole run\<close>

lemma andThen_by_snd:
  "andThen p f =
     (case snd p of
        Exited c \<Rightarrow> (fst p, Exited c)
      | Returned a \<Rightarrow> (fst p @ fst (f a), snd (f a)))"
  by (cases p) (simp split: result.splits)

lemma connect_failed:
  "connectError e = Some err \<Longrightarrow>
     connect e cfg cid b h =
       (INFO_Printf e (''Connecting to '' @ quoted (brokerUrlOf cfg) @ '' as user '' @
                       quoted (cfgUsername cfg) @ '' with client ID '' @ quoted cid) @
        [ClientConnect (brokerUrlOf cfg) cid, ConnectTokenDone (Some err)],
        Returned (Inl err))"
  by (simp add: connect_def brokerUrlOf_def Let_def)

lemma connect_ok:
  "connectError e = None \<Longrightarrow>
     connect e cfg cid b h =
       (INFO_Printf e (''Connecting to '' @ quoted (brokerUrlOf cfg) @ '' as user '' @
                       quoted (cfgUsername cfg) @ '' with client ID '' @ quoted cid) @
        [ClientConnect (brokerUrlOf cfg) cid, ConnectTokenDone None] @
        OnConnect e b (''indy-switch/'' @ h @ ''/ack'') @
        (if b then waitSubscribed e (''indy-switch/'' @ h @ ''/ack'') else []),
        Returned (Inr (Client (brokerUrlOf cfg) cid)))"
  by (simp add: connect_def brokerUrlOf_def Let_def)

lemma LoadConfig_shape:
  "(\<exists>msg. LoadConfig e = ([Logged Stderr ''ERROR: '' msg, OsExit 1], Exited 1)) \<or>
   (\<exists>cfg. LoadConfig e = ([], Returned cfg))"
  by (auto simp: LoadConfig_def loadConfig_def checkFields_regular_def checkFields_secrets_def
      ERROR_Fatalf_def split: loaded.splits option.splits)

lemma endedByFatalf_Fatalf [simp]:
  "endedByFatalf (pre @ [Logged Stderr ''ERROR: '' msg, OsExit 1])"
  by (simp add: endedByFatalf_def)

lemma endedByFatalf_Exit0 [simp]: "\<not> endedByFatalf (pre @ [OsExit 0])"
  by (simp add: endedByFatalf_def split: list.splits event.splits)

lemma endedByFatalf_Exit2 [simp]: "\<not> endedByFatalf (pre @ [OsExit 2])"
  by (simp add: endedByFatalf_def split: list.splits event.splits)

lemma beforeSession_INFO [simp]: "list_all beforeSession (INFO_Printf e msg)"
  by (simp add: INFO_Printf_def)

lemma main_shape:
  "(\<exists>es c. main e = (es, Exited c) \<and> list_all beforeSession es \<and>
             (c = 0 \<or> c = 1 \<or> c = 2) \<and> (endedByFatalf es \<longleftrightarrow> c = 1)) \<or>
   (\<exists>cfg h cmd. osHostname e = Inr h \<and> connectError e = None \<and>
      NewCommand (draws e) (now e) (readSuntimes e) (h @ ''-'' @ binaryName e) (flagArgs e) =
        Inr cmd \<and>
      main e =
        (fst (connect e cfg (h @ ''-'' @ binaryName e) (IsAckExpected cmd) (Host cmd)) @
         fst (publishAndWatch e cmd (Client (brokerUrlOf cfg) (h @ ''-'' @ binaryName e))),
         snd (publishAndWatch e cmd (Client (brokerUrlOf cfg) (h @ ''-'' @ binaryName e)))))"
  (is "?early \<or> ?run")
proof -
  consider (flagError) msg where "flagParse e = FlagError msg"
    | (flagHelp) "flagParse e = FlagHelp"
    | (askHelp) "flagParse e = FlagsParsed" "printHelp e"
    | (askVersion) "flagParse e = FlagsParsed" "\<not> printHelp e" "printVersion e"
    | (proceed) "flagParse e = FlagsParsed" "\<not> printHelp e" "\<not> printVersion e"
    by (cases "flagParse e") auto
  then show ?thesis
  proof cases
    case flagError
    then have "main e = ([Printed Stderr (msg @ newline), FlagUsage, OsExit 2], Exited 2)"
      by (simp add: main_def parseCommandLine_def)
    moreover have "\<not> endedByFatalf [Printed Stderr (msg @ newline), FlagUsage, OsExit 2]"
      using endedByFatalf_Exit2 [of "[Printed Stderr (msg @ newline), FlagUsage]"] by simp
    ultimately show ?thesis by simp
  next
    case flagHelp
    then have "main e = ([FlagUsage, OsExit 0], Exited 0)"
      by (simp add: main_def parseCommandLine_def)
    moreover have "\<not> endedByFatalf [FlagUsage, OsExit 0]"
      using endedByFatalf_Exit0 [of "[FlagUsage]"] by simp
    ultimately show ?thesis by simp
  next
    case askHelp
    then have "main e = ([FlagUsage, OsExit 0], Exited 0)"
      by (simp add: main_def parseCommandLine_def)
    moreover have "\<not> endedByFatalf [FlagUsage, OsExit 0]"
      using endedByFatalf_Exit0 [of "[FlagUsage]"] by simp
    ultimately show ?thesis by simp
  next
    case askVersion
    then have "main e = ([Printed Stdout (versionLine e), OsExit 0], Exited 0)"
      by (simp add: main_def parseCommandLine_def)
    moreover have "\<not> endedByFatalf [Printed Stdout (versionLine e), OsExit 0]"
      using endedByFatalf_Exit0 [of "[Printed Stdout (versionLine e)]"] by simp
    ultimately show ?thesis by simp
  next
    case proceed
    then have parse: "parseCommandLine e = ([], Returned (flagArgs e))"
      by (simp add: parseCommandLine_def)
    from LoadConfig_shape [of e] show ?thesis
    proof
      assume "\<exists>msg. LoadConfig e = ([Logged Stderr ''ERROR: '' msg, OsExit 1], Exited 1)"
      then obtain msg where "LoadConfig e = ([Logged Stderr ''ERROR: '' msg, OsExit 1], Exited 1)"
        by blast
      then have "main e = ([Logged Stderr ''ERROR: '' msg, OsExit 1], Exited 1)"
        by (simp add: main_def parse)
      moreover have "endedByFatalf [Logged Stderr ''ERROR: '' msg, OsExit 1]"
        using endedByFatalf_Fatalf [of "[]"] by simp
      ultimately show ?thesis by simp
    next
      assume "\<exists>cfg. LoadConfig e = ([], Returned cfg)"
      then obtain cfg where cfg: "LoadConfig e = ([], Returned cfg)" by blast
      show ?thesis
      proof (cases "osHostname e")
        case (Inl err)
        then have "main e = ([Logged Stderr ''ERROR: '' ''Unable to lookup hostname'', OsExit 1],
                             Exited 1)"
          by (simp add: main_def parse cfg ERROR_Fatalf_def)
        moreover have
          "endedByFatalf [Logged Stderr ''ERROR: '' ''Unable to lookup hostname'', OsExit 1]"
          using endedByFatalf_Fatalf [of "[]"] by simp
        ultimately show ?thesis by simp
      next
        case (Inr h)
        let ?cid = "h @ ''-'' @ binaryName e"
        show ?thesis
        proof (cases "NewCommand (draws e) (now e) (readSuntimes e) ?cid (flagArgs e)")
          case (Inl err)
          let ?shown = "Printed Stderr (''ERROR: '' @
                          capitalizeFirstLetter (unicodeToTitle e) err @ newline @ newline)"
          from Inl have "main e = ([?shown, FlagUsage, OsExit 0], Exited 0)"
            using Inr by (simp add: main_def parse cfg PrintFatalUsage_def)
          moreover have "\<not> endedByFatalf [?shown, FlagUsage, OsExit 0]"
            using endedByFatalf_Exit0 [of "[?shown, FlagUsage]"] by simp
          ultimately show ?thesis by simp
        next
          case cmd: (Inr cmd)
          show ?thesis
          proof (cases "connectError e")
            case (Some err)
            let ?pre = "INFO_Printf e (''Connecting to '' @ quoted (brokerUrlOf cfg) @
                          '' as user '' @ quoted (cfgUsername cfg) @ '' with client ID '' @
                          quoted ?cid) @
                        [ClientConnect (brokerUrlOf cfg) ?cid, ConnectTokenDone (Some err)]"
            have "main e =
                (?pre @ [Logged Stderr ''ERROR: '' (''Unable to connect: '' @ err), OsExit 1],
                 Exited 1)"
              using Inr cmd
              by (simp add: main_def parse cfg connect_failed [OF Some] ERROR_Fatalf_def Let_def)
            moreover have "list_all beforeSession
                (?pre @ [Logged Stderr ''ERROR: '' (''Unable to connect: '' @ err), OsExit 1])"
              by simp
            ultimately have ?early
              using endedByFatalf_Fatalf [of ?pre "''Unable to connect: '' @ err"] by simp
            then show ?thesis ..
          next
            case None
            have c: "snd (connect e cfg ?cid (IsAckExpected cmd) (Host cmd)) =
                       Returned (Inr (Client (brokerUrlOf cfg) ?cid))"
              by (simp add: connect_ok [OF None])
            have "main e =
               (fst (connect e cfg ?cid (IsAckExpected cmd) (Host cmd)) @
                fst (publishAndWatch e cmd (Client (brokerUrlOf cfg) ?cid)),
                snd (publishAndWatch e cmd (Client (brokerUrlOf cfg) ?cid)))"
              using Inr cmd c
              by (simp add: main_def parse cfg andThen_by_snd Let_def)
            with Inr cmd None have ?run by blast
            then show ?thesis ..
          qed
        qed
      qed
    qed
  qed
qed

lemma beforeSession_no_publish: "list_all beforeSession es \<Longrightarrow> \<not> list_ex isPublish es"
  by (induction es) (auto elim: isPublish.elims)

lemma beforeSession_no_subscribe: "list_all beforeSession es \<Longrightarrow> \<not> list_ex isSubscribe es"
  by (induction es) (auto elim: isSubscribe.elims)

lemma beforeSession_no_connected:
  "list_all beforeSession es \<Longrightarrow> ConnectTokenDone None \<notin> set es"
  by (induction es) auto

lemma infos_no_publish: "list_all isInfo es \<Longrightarrow> \<not> list_ex isPublish es"
  by (induction es) (auto elim: isInfo.elims)

lemma infos_no_subscribe: "list_all isInfo es \<Longrightarrow> \<not> list_ex isSubscribe es"
  by (induction es) (auto elim: isInfo.elims)

lemma infos_no_disconnect: "list_all isInfo es \<Longrightarrow> \<not> list_ex isDisconnect es"
  by (induction es) (auto elim: isInfo.elims)

lemma isInfo_INFO [simp]: "list_all isInfo (INFO_Printf e msg)"
  by (simp add: INFO_Printf_def)

lemma connect_trace_quiet:
  "\<not> list_ex isPublish (fst (connect e cfg cid b h)) \<and>
   \<not> list_ex isDisconnect (fst (connect e cfg cid b h)) \<and>
   (\<not> b \<longrightarrow> \<not> list_ex isSubscribe (fst (connect e cfg cid b h)))"
  by (cases "connectError e")
     (auto simp: connect_ok connect_failed OnConnect_def waitSubscribed_def INFO_Printf_def
       ERROR_Printf_def split: subscribe_reply.splits)

lemma handlers_trace_quiet:
  "\<not> list_ex isPublish (OnConnectHandler e l b t reply)"
  "\<not> list_ex isDisconnect (OnConnectHandler e l b t reply)"
  "\<not> list_ex isPublish (OnConnectionLost err)"
  "\<not> list_ex isDisconnect (OnConnectionLost err)"
  "\<not> list_ex isPublish OnReconnecting"
  "\<not> list_ex isDisconnect OnReconnecting"
  by (auto simp: OnConnectHandler_def OnConnectionLost_def OnReconnecting_def
      WARNING_Printf_def INFO_Printf_def ERROR_Printf_def split: subscribe_reply.splits)

lemma onAckMessage_trace_quiet:
  "\<not> list_ex isPublish (fst (onAckMessage e p)) \<and>
   \<not> list_ex isDisconnect (fst (onAckMessage e p)) \<and>
   \<not> list_ex isSubscribe (fst (onAckMessage e p))"
  by (auto simp: onAckMessage_def prettifyJSON_def INFO_Printf_def ERROR_Printf_def Let_def
      split: sum.splits)

lemma ackLoopBody_trace_quiet:
  "ackLoopBody e cmd ack = Some (es, oc) \<Longrightarrow>
     \<not> list_ex isPublish es \<and> \<not> list_ex isDisconnect es \<and> \<not> list_ex isSubscribe es"
  by (auto simp: ackLoopBody_def HandleAck_def INFO_Printf_def ERROR_Printf_def list_ex_iff
      split: if_splits prod.splits option.splits ack_handler.splits)

lemma watchFrom_trace_quiet:
  "\<not> list_ex isPublish (fst (watchFrom l c e cmd evs)) \<and>
   \<not> list_ex isDisconnect (fst (watchFrom l c e cmd evs))"
proof (induction evs arbitrary: l c)
  case Nil
  show ?case by (simp add: ERROR_Printf_def)
next
  case (Cons ev evs)
  show ?case
  proof (cases ev)
    case (MessageArrives payload)
    show ?thesis
    proof (cases "jsonUnmarshalAck e payload")
      case (Inl err)
      show ?thesis
        unfolding MessageArrives watchFrom_unparsed [OF Inl]
        using Cons.IH [of l c] onAckMessage_trace_quiet [of e payload] by simp
    next
      case (Inr ack)
      show ?thesis
      proof (cases "ID ack = MessageID (Header (Message cmd))")
        case False
        show ?thesis
          unfolding MessageArrives watchFrom_mismatch [OF Inr False]
          using Cons.IH [of l c] onAckMessage_trace_quiet [of e payload] by simp
      next
        case True
        from watchFrom_match [OF Inr True, of l c evs] obtain es oc where
          b: "ackLoopBody e cmd ack = Some (es, oc)" and
          w: "watchFrom l c e cmd (MessageArrives payload # evs) =
               (Received (MessageArrives payload) # fst (onAckMessage e payload) @ es, oc)"
          by blast
        show ?thesis
          unfolding MessageArrives w
          using onAckMessage_trace_quiet [of e payload] ackLoopBody_trace_quiet [OF b] by simp
      qed
    qed
  next
    case TimerFires
    then show ?thesis by (simp add: ERROR_Printf_def)
  next
    case SignalArrives
    then show ?thesis by simp
  next
    case (ConnectionLost err)
    show ?thesis
      unfolding ConnectionLost watchFrom_lost
      using Cons.IH [of True c] handlers_trace_quiet(3,4) [of err] by simp
  next
    case Reconnecting
    show ?thesis
      unfolding Reconnecting watchFrom_reconnecting
      using Cons.IH [of l c] handlers_trace_quiet(5,6) by simp
  next
    case (Reconnected reply)
    show ?thesis
    proof (cases "IsAckExpected cmd \<and> reply = SubscribeOk \<and> c")
      case True
      show ?thesis
        unfolding Reconnected watchFrom_panic [OF True]
        using handlers_trace_quiet(1,2) [of e l "IsAckExpected cmd" _ reply] by simp
    next
      case False
      show ?thesis
        unfolding Reconnected watchFrom_reconnected [OF False]
        using Cons.IH [of False "c \<or> IsAckExpected cmd \<and> reply = SubscribeOk"]
          handlers_trace_quiet(1,2) [of e l "IsAckExpected cmd" _ reply]
        by simp
    qed
  qed
qed

lemma watch_trace_quiet:
  "\<not> list_ex isPublish (fst (watch e cmd evs)) \<and>
   \<not> list_ex isDisconnect (fst (watch e cmd evs))"
  unfolding watch_def by (rule watchFrom_trace_quiet)

lemma waitPublish_trace_quiet:
  "\<not> list_ex isPublish (fst (waitPublish e)) \<and>
   \<not> list_ex isDisconnect (fst (waitPublish e)) \<and>
   \<not> list_ex isSubscribe (fst (waitPublish e))"
  by (auto simp: waitPublish_def INFO_Printf_def ERROR_Printf_def
      split: publish_wait.splits option.splits)

lemma not_ended_by_disconnect [simp]:
  "\<not> endedByFatalf (pre @ ClientDisconnect d # INFO_Printf e msg)"
  by (simp add: endedByFatalf_def INFO_Printf_def)

lemma publishAndWatch_fatal:
  assumes "\<not> marshalled e cmd"
  shows "\<exists>pre msg. list_all isInfo pre \<and>
           publishAndWatch e cmd cl = (pre @ [Logged Stderr ''ERROR: '' msg, OsExit 1], Exited 1)"
proof (cases "jsonMarshal e (Message cmd)")
  case (Inl err)
  show ?thesis
    unfolding publishAndWatch_marshal_error [OF Inl] ERROR_Fatalf_def
    by (intro exI [of _ "[]"] exI [of _ "''Error marshaling message: '' @ err"]) simp
next
  case (Inr bytes)
  with assms have v: "Verbose e" and "isl (jsonMarshalIndent e (Message cmd))"
    by (auto simp: marshalled_def split: if_splits)
  then obtain err where i: "jsonMarshalIndent e (Message cmd) = Inl err"
    by (cases "jsonMarshalIndent e (Message cmd)") auto
  show ?thesis
    unfolding publishAndWatch_indent_error [OF Inr v i]
    by (intro exI [of _ "INFO_Printf e (''Publishing to topic '' @ quoted (Topic cmd))"]
          exI [of _ "''Unable to format JSON: '' @ err"]) simp
qed

lemma publishAndWatch_returns:
  assumes "marshalled e cmd" "\<not> panics e cmd"
  shows "\<exists>pre oc. publishAndWatch e cmd cl =
           (pre @ ClientDisconnect DISCONNECT_WAIT # INFO_Printf e ''Disconnected from broker'',
            Returned oc) \<and>
         list_ex isPublish pre \<and> \<not> list_ex isDisconnect pre \<and>
         (\<not> IsAckExpected cmd \<longrightarrow> \<not> list_ex isSubscribe pre)"
proof -
  from publishAndWatch_run_calm [OF assms, of cl] obtain pre bytes where
    pre: "list_all isInfo pre" and
    run: "publishAndWatch e cmd cl =
             (pre @ ClientPublish (Topic cmd) (QOS cmd) False bytes # fst (waitPublish e) @
              (if IsAckExpected cmd \<and> fst (snd (waitPublish e))
               then INFO_Printf e ''Watching for ACK'' @ TimeAfter TIMEOUT #
                    fst (watch e cmd (ackWait e))
               else []) @
              ClientDisconnect DISCONNECT_WAIT # INFO_Printf e ''Disconnected from broker'',
              Returned (if IsAckExpected cmd \<and> fst (snd (waitPublish e))
                        then snd (watch e cmd (ackWait e))
                        else snd (snd (waitPublish e))))"
    by blast
  let ?pre = "pre @ ClientPublish (Topic cmd) (QOS cmd) False bytes # fst (waitPublish e) @
              (if IsAckExpected cmd \<and> fst (snd (waitPublish e))
               then INFO_Printf e ''Watching for ACK'' @ TimeAfter TIMEOUT #
                    fst (watch e cmd (ackWait e))
               else [])"
  have "publishAndWatch e cmd cl =
           (?pre @ ClientDisconnect DISCONNECT_WAIT # INFO_Printf e ''Disconnected from broker'',
            Returned (if IsAckExpected cmd \<and> fst (snd (waitPublish e))
                        then snd (watch e cmd (ackWait e))
                        else snd (snd (waitPublish e))))"
    unfolding run by simp
  moreover have "list_ex isPublish ?pre" by simp
  moreover have "\<not> list_ex isDisconnect ?pre"
    using infos_no_disconnect [OF pre]
      waitPublish_trace_quiet [of e] watch_trace_quiet [of e cmd "ackWait e"]
    by (simp add: INFO_Printf_def)
  moreover have "\<not> IsAckExpected cmd \<longrightarrow> \<not> list_ex isSubscribe ?pre"
    using infos_no_subscribe [OF pre] waitPublish_trace_quiet [of e]
    by simp
  ultimately show ?thesis by blast
qed


lemma main_connected:
  assumes "reachesConnect e cfg h cmd" "connectError e = None"
  shows "main e =
     (fst (connect e cfg (h @ ''-'' @ binaryName e) (IsAckExpected cmd) (Host cmd)) @
      fst (publishAndWatch e cmd (Client (brokerUrlOf cfg) (h @ ''-'' @ binaryName e))),
      snd (publishAndWatch e cmd (Client (brokerUrlOf cfg) (h @ ''-'' @ binaryName e))))"
proof -
  have c: "snd (connect e cfg (h @ ''-'' @ binaryName e) (IsAckExpected cmd) (Host cmd)) =
             Returned (Inr (Client (brokerUrlOf cfg) (h @ ''-'' @ binaryName e)))"
    by (simp add: connect_ok [OF assms(2)])
  show ?thesis
    using assms(1) c
    by (simp add: main_def reachesConnect_def pastCommandLine_def commandOf_def
        parseCommandLine_def andThen_by_snd Let_def)
qed


section \<open>Exit status\<close>


lemma main_disconnects:
  assumes "reachesPublish e cfg h cmd" "\<not> panics e cmd"
  shows "\<exists>pre oc. main e =
           (pre @ ClientDisconnect DISCONNECT_WAIT # INFO_Printf e ''Disconnected from broker'',
            Returned oc) \<and>
         list_ex isPublish pre \<and> \<not> list_ex isDisconnect pre"
proof -
  from assms(1) have r: "reachesConnect e cfg h cmd" and c: "connectError e = None" and
    m: "marshalled e cmd"
    by (simp_all add: reachesPublish_def)
  let ?c = "fst (connect e cfg (h @ ''-'' @ binaryName e) (IsAckExpected cmd) (Host cmd))"
  let ?cl = "Client (brokerUrlOf cfg) (h @ ''-'' @ binaryName e)"
  from publishAndWatch_returns [OF m assms(2), of ?cl] obtain pre oc where
    p: "publishAndWatch e cmd ?cl =
         (pre @ ClientDisconnect DISCONNECT_WAIT # INFO_Printf e ''Disconnected from broker'',
          Returned oc)" "list_ex isPublish pre" "\<not> list_ex isDisconnect pre"
    by blast
  have "main e = ((?c @ pre) @ ClientDisconnect DISCONNECT_WAIT #
                    INFO_Printf e ''Disconnected from broker'', Returned oc)"
    unfolding main_connected [OF r c] p(1) by simp
  moreover have "list_ex isPublish (?c @ pre)" "\<not> list_ex isDisconnect (?c @ pre)"
    using p(2,3)
      connect_trace_quiet [of e cfg "h @ ''-'' @ binaryName e" "IsAckExpected cmd" "Host cmd"]
    by simp_all
  ultimately show ?thesis by blast
qed


text \<open>
  Every run takes one of the paths that the next theorem tells apart, and its exit
  status is 0, 1 or 2.
\<close>

lemma every_run_takes_one_path:
  "(\<exists>msg. flagParse e = FlagError msg) \<or> flagParse e = FlagHelp \<or>
   flagParse e = FlagsParsed \<and> (printHelp e \<or> printVersion e) \<or>
   pastCommandLine e \<and> (\<forall>c. LoadConfig e \<noteq> ([], Returned c)) \<or>
   (\<exists>cfg. pastCommandLine e \<and> LoadConfig e = ([], Returned cfg) \<and>
      (isl (osHostname e) \<or>
       (\<exists>h. osHostname e = Inr h \<and>
          ((\<exists>err. commandOf e h = Inl err) \<or>
           (\<exists>cmd. reachesConnect e cfg h cmd \<and>
              ((\<exists>err. connectError e = Some err) \<or>
               connectError e = None \<and> \<not> marshalled e cmd \<or>
               reachesPublish e cfg h cmd \<and>
                 ((\<exists>err. publishWait e = TokenDone (Some err)) \<or>
                  publishWait e = InterruptFirst \<or>
                  publishWait e = TokenDone None \<and> \<not> IsAckExpected cmd \<or>
                  publishWait e = TokenDone None \<and> IsAckExpected cmd \<and>
                    snd (watch e cmd (ackWait e)) \<noteq> Panicked \<or>
                  panics e cmd)))))))"
proof -
  have publish: "(\<exists>err. publishWait e = TokenDone (Some err)) \<or>
                  publishWait e = InterruptFirst \<or>
                  publishWait e = TokenDone None \<and> \<not> IsAckExpected cmd \<or>
                  publishWait e = TokenDone None \<and> IsAckExpected cmd \<and>
                    snd (watch e cmd (ackWait e)) \<noteq> Panicked \<or>
                  panics e cmd" for cmd
    by (cases "publishWait e") (auto simp: panics_def)
  have connected: "(\<exists>err. connectError e = Some err) \<or>
               connectError e = None \<and> \<not> marshalled e cmd \<or>
               reachesPublish e cfg h cmd \<and>
                 ((\<exists>err. publishWait e = TokenDone (Some err)) \<or>
                  publishWait e = InterruptFirst \<or>
                  publishWait e = TokenDone None \<and> \<not> IsAckExpected cmd \<or>
                  publishWait e = TokenDone None \<and> IsAckExpected cmd \<and>
                    snd (watch e cmd (ackWait e)) \<noteq> Panicked \<or>
                  panics e cmd)"
    if "reachesConnect e cfg h cmd" for cfg h cmd
    using that publish [of cmd] by (cases "connectError e") (auto simp: reachesPublish_def)
  have hostname: "isl (osHostname e) \<or>
       (\<exists>h. osHostname e = Inr h \<and>
          ((\<exists>err. commandOf e h = Inl err) \<or>
           (\<exists>cmd. reachesConnect e cfg h cmd \<and>
              ((\<exists>err. connectError e = Some err) \<or>
               connectError e = None \<and> \<not> marshalled e cmd \<or>
               reachesPublish e cfg h cmd \<and>
                 ((\<exists>err. publishWait e = TokenDone (Some err)) \<or>
                  publishWait e = InterruptFirst \<or>
                  publishWait e = TokenDone None \<and> \<not> IsAckExpected cmd \<or>
                  publishWait e = TokenDone None \<and> IsAckExpected cmd \<and>
                    snd (watch e cmd (ackWait e)) \<noteq> Panicked \<or>
                  panics e cmd)))))"
    if p: "pastCommandLine e" "LoadConfig e = ([], Returned cfg)" for cfg
  proof (cases "osHostname e")
    case (Inl err)
    then show ?thesis by simp
  next
    case (Inr h)
    show ?thesis
    proof (cases "commandOf e h")
      case (Inl err)
      with Inr show ?thesis by simp
    next
      case cmd: (Inr cmd)
      have "reachesConnect e cfg h cmd"
        using p Inr cmd by (simp add: reachesConnect_def)
      from this connected [OF this] Inr show ?thesis by blast
    qed
  qed
  show ?thesis
  proof (cases "flagParse e")
    case FlagsParsed
    show ?thesis
    proof (cases "printHelp e \<or> printVersion e")
      case True
      with FlagsParsed show ?thesis by simp
    next
      case False
      with FlagsParsed have p: "pastCommandLine e" by (simp add: pastCommandLine_def)
      show ?thesis
      proof (cases "\<exists>c. LoadConfig e = ([], Returned c)")
        case True
        then obtain cfg where c: "LoadConfig e = ([], Returned cfg)" by blast
        from p c hostname [OF p c] show ?thesis by blast
      next
        case False
        with p show ?thesis by simp
      qed
    qed
  next
    case FlagHelp
    then show ?thesis by simp
  next
    case (FlagError msg)
    then show ?thesis by simp
  qed
qed

lemma exit_status_0_1_or_2:
  "exit_status (snd (main e)) = 0 \<or> exit_status (snd (main e)) = 1 \<or>
   exit_status (snd (main e)) = 2"
  using main_shape [of e]
proof
  assume "\<exists>es c. main e = (es, Exited c) \<and> list_all beforeSession es \<and>
             (c = 0 \<or> c = 1 \<or> c = 2) \<and> (endedByFatalf es \<longleftrightarrow> c = 1)"
  then show ?thesis by (auto simp: exit_status_def)
next
  assume "\<exists>cfg h cmd. osHostname e = Inr h \<and> connectError e = None \<and>
      NewCommand (draws e) (now e) (readSuntimes e) (h @ ''-'' @ binaryName e) (flagArgs e) =
        Inr cmd \<and>
      main e =
        (fst (connect e cfg (h @ ''-'' @ binaryName e) (IsAckExpected cmd) (Host cmd)) @
         fst (publishAndWatch e cmd (Client (brokerUrlOf cfg) (h @ ''-'' @ binaryName e))),
         snd (publishAndWatch e cmd (Client (brokerUrlOf cfg) (h @ ''-'' @ binaryName e))))"
  then obtain cfg h cmd where
    m: "main e =
        (fst (connect e cfg (h @ ''-'' @ binaryName e) (IsAckExpected cmd) (Host cmd)) @
         fst (publishAndWatch e cmd (Client (brokerUrlOf cfg) (h @ ''-'' @ binaryName e))),
         snd (publishAndWatch e cmd (Client (brokerUrlOf cfg) (h @ ''-'' @ binaryName e))))"
    by blast
  let ?cl = "Client (brokerUrlOf cfg) (h @ ''-'' @ binaryName e)"
  show ?thesis
  proof (cases "marshalled e cmd")
    case True
    from publishAndWatch_run [OF True, of ?cl] show ?thesis
      unfolding m by (auto simp: exit_status_def split: if_splits)
  next
    case False
    from publishAndWatch_fatal [OF False, of ?cl] show ?thesis
      unfolding m by (auto simp: exit_status_def)
  qed
qed




section \<open>The disconnect\<close>

lemma main_run:
  assumes "osHostname e = Inr h"
    "NewCommand (draws e) (now e) (readSuntimes e) (h @ ''-'' @ binaryName e) (flagArgs e) =
       Inr cmd"
    "\<not> list_all beforeSession (fst (main e))"
  shows "\<exists>cfg. connectError e = None \<and>
      main e =
        (fst (connect e cfg (h @ ''-'' @ binaryName e) (IsAckExpected cmd) (Host cmd)) @
         fst (publishAndWatch e cmd (Client (brokerUrlOf cfg) (h @ ''-'' @ binaryName e))),
         snd (publishAndWatch e cmd (Client (brokerUrlOf cfg) (h @ ''-'' @ binaryName e))))"
  using main_shape [of e] assms by auto

text \<open>
  C7. A run that has published ends with the \<open>Disconnect\<close> (lemma
  \<open>main_disconnects\<close>) unless it panics. It panics in the following run of
  \<open>indy-mqtt esp-vorona switch on\<close>: the subscription to the ack topic is confirmed,
  the command is published, and while \<open>main\<close> watches for the ack the link to the
  broker is lost and comes back. The client calls \<open>OnConnect\<close> again, which
  subscribes again, and when the broker confirms that subscription the handler's
  goroutine closes the channel \<open>subscribed\<close> a second time. The process ends with
  status 2 and without a \<open>Disconnect\<close>.
\<close>

theorem reconnect_panics_without_disconnect:
  "main (switch_on_run\<lparr>ackWait :=
           [ConnectionLost ''EOF'', Reconnecting, Reconnected SubscribeOk]\<rparr>) =
     ([ClientConnect ''ssl://broker.example.org:8883'' ''pc-indy-mqtt'',
       ConnectTokenDone None, ClientSubscribe ''indy-switch/esp-vorona/ack'' 1,
       SubscribeTokenDone None, TimeAfter 30000000000,
       ClientPublish ''indy-switch/esp-vorona/control'' 2 False ''{message}'',
       PublishTokenDone None, TimeAfter 30000000000,
       Received (ConnectionLost ''EOF''),
       Logged Stderr ''WARNING: '' ''Connection lost: EOF'',
       Received Reconnecting,
       Printed Stdout (''Attempting to reconnect'' @ newline),
       Received (Reconnected SubscribeOk),
       Printed Stdout (''Connection reestablished'' @ newline),
       ClientSubscribe ''indy-switch/esp-vorona/ack'' 1, SubscribeTokenDone None,
       Panic ''close of closed channel'', OsExit 2],
      Exited 2) \<and>
   filter isDisconnect
     (fst (main (switch_on_run\<lparr>ackWait :=
        [ConnectionLost ''EOF'', Reconnecting, Reconnected SubscribeOk]\<rparr>))) = [] \<and>
   exit_status
     (snd (main (switch_on_run\<lparr>ackWait :=
        [ConnectionLost ''EOF'', Reconnecting, Reconnected SubscribeOk]\<rparr>))) = 2"
  by (simp add: switch_on_run_def
      main_def parseCommandLine_def LoadConfig_def loadConfig_def
      checkFields_regular_def checkFields_secrets_def NewCommand_def NewControlCommand_def
      NewMessage_def GenerateHexSuffix_eq hexchar_def upperhex_def connect_def OnConnect_def
      waitSubscribed_def publishAndWatch_def waitPublish_def watch_def
      OnConnectHandler_def OnConnectionLost_def OnReconnecting_def WARNING_Printf_def
      INFO_Printf_def ERROR_Printf_def exit_status_def
      fmt_d_def fmt_nat.simps decimals_def TIMEOUT_def Second_def ACK_QOS_def
      DISCONNECT_WAIT_def Let_def)

section \<open>Subscribing before publishing\<close>

lemma connect_subscribed:
  "connectError e = None \<Longrightarrow> subscribeReply e = SubscribeOk \<Longrightarrow>
     \<exists>pre post. connect e cfg cid True h =
       (pre @ [ClientSubscribe (''indy-switch/'' @ h @ ''/ack'') ACK_QOS,
               SubscribeTokenDone None] @ post,
        Returned (Inr (Client (brokerUrlOf cfg) cid)))"
  unfolding connect_ok
  by (intro exI [of _ "INFO_Printf e (''Connecting to '' @ quoted (brokerUrlOf cfg) @
                          '' as user '' @ quoted (cfgUsername cfg) @ '' with client ID '' @
                          quoted cid) @
                        [ClientConnect (brokerUrlOf cfg) cid, ConnectTokenDone None] @
                        INFO_Printf e ''Connection established'' @
                        INFO_Printf e (''Subscribing to '' @
                          quoted (''indy-switch/'' @ h @ ''/ack''))"]
            exI [of _ "INFO_Printf e (''Susbscribed to '' @
                          quoted (''indy-switch/'' @ h @ ''/ack'')) @
                       waitSubscribed e (''indy-switch/'' @ h @ ''/ack'')"])
     (simp add: OnConnect_def)

text \<open>
  C1, as the code has it. When an ack is expected and the broker confirms the
  subscription within the wait, \<open>connect\<close> subscribes to the ack topic, observes the
  confirmation and only then returns the client; in the run of \<open>main\<close> the
  confirmation comes before the publish. When the connect handshake fails,
  \<open>connect\<close> returns the error, nothing is subscribed and nothing is published.
\<close>

theorem publish_follows_confirmed_subscription:
  assumes "osHostname e = Inr h"
    "NewCommand (draws e) (now e) (readSuntimes e) (h @ ''-'' @ binaryName e) (flagArgs e) =
       Inr cmd"
    "IsAckExpected cmd"
  shows "(subscribeReply e = SubscribeOk \<and> list_ex isPublish (fst (main e)) \<longrightarrow>
            SubscribeTokenDone None \<in> set (takeWhile (\<lambda>ev. \<not> isPublish ev) (fst (main e)))) \<and>
         (subscribeReply e = SubscribeOk \<and> connectError e = None \<longrightarrow>
            (\<exists>pre post. connect e cfg cid True host =
               (pre @ [ClientSubscribe (''indy-switch/'' @ host @ ''/ack'') ACK_QOS,
                       SubscribeTokenDone None] @ post,
                Returned (Inr (Client (brokerUrlOf cfg) cid))))) \<and>
         (\<forall>err. connectError e = Some err \<longrightarrow>
            snd (connect e cfg cid b host) = Returned (Inl err) \<and>
            \<not> list_ex isSubscribe (fst (connect e cfg cid b host)) \<and>
            \<not> list_ex isSubscribe (fst (main e)) \<and> \<not> list_ex isPublish (fst (main e)))"
proof -
  have first: "SubscribeTokenDone None \<in> set (takeWhile (\<lambda>ev. \<not> isPublish ev) (fst (main e)))"
    if "subscribeReply e = SubscribeOk \<and> list_ex isPublish (fst (main e))"
  proof -
    from that have "\<not> list_all beforeSession (fst (main e))"
      using beforeSession_no_publish by blast
    from main_run [OF assms(1,2) this] obtain cfg' where
      n: "connectError e = None" and
      m: "main e =
        (fst (connect e cfg' (h @ ''-'' @ binaryName e) (IsAckExpected cmd) (Host cmd)) @
         fst (publishAndWatch e cmd (Client (brokerUrlOf cfg') (h @ ''-'' @ binaryName e))),
         snd (publishAndWatch e cmd (Client (brokerUrlOf cfg') (h @ ''-'' @ binaryName e))))"
      by blast
    let ?c = "fst (connect e cfg' (h @ ''-'' @ binaryName e) (IsAckExpected cmd) (Host cmd))"
    have "\<not> list_ex isPublish ?c"
      using connect_trace_quiet [of e cfg' "h @ ''-'' @ binaryName e" "IsAckExpected cmd"
          "Host cmd"] by simp
    then have "\<And>ev. ev \<in> set ?c \<Longrightarrow> \<not> isPublish ev"
      by (simp add: list_ex_iff)
    then have "takeWhile (\<lambda>ev. \<not> isPublish ev) (fst (main e)) =
        ?c @ takeWhile (\<lambda>ev. \<not> isPublish ev)
               (fst (publishAndWatch e cmd (Client (brokerUrlOf cfg') (h @ ''-'' @ binaryName e))))"
      unfolding m by (simp add: takeWhile_append2)
    moreover have "SubscribeTokenDone None \<in> set ?c"
      using connect_subscribed [OF n, of cfg' "h @ ''-'' @ binaryName e" "Host cmd"] that assms(3)
      by auto
    ultimately show ?thesis by simp
  qed
  have refused: "snd (connect e cfg cid b host) = Returned (Inl err) \<and>
            \<not> list_ex isSubscribe (fst (connect e cfg cid b host)) \<and>
            \<not> list_ex isSubscribe (fst (main e)) \<and> \<not> list_ex isPublish (fst (main e))"
    if "connectError e = Some err" for err
  proof -
    from main_shape [of e] that obtain es c where
      "main e = (es, Exited c)" "list_all beforeSession es"
      by auto
    then show ?thesis
      using beforeSession_no_publish [of es] beforeSession_no_subscribe [of es]
      by (simp add: connect_failed [OF that] INFO_Printf_def)
  qed
  from first refused connect_subscribed [of e cfg cid host] show ?thesis
    by blast
qed

lemma run_switch_on:
  "main switch_on_run =
     ([ClientConnect ''ssl://broker.example.org:8883'' ''pc-indy-mqtt'',
       ConnectTokenDone None, ClientSubscribe ''indy-switch/esp-vorona/ack'' 1,
       SubscribeTokenDone None, TimeAfter 30000000000,
       ClientPublish ''indy-switch/esp-vorona/control'' 2 False ''{message}'',
       PublishTokenDone None, TimeAfter 30000000000,
       Received (MessageArrives ''ack-stale''),
       Received (MessageArrives ''ack-ok''), HandleAckCalled ''{}'',
       ClientDisconnect 250],
      Returned (AcknowledgedSuccess None))"
  by (simp add: switch_on_run_def
      main_def parseCommandLine_def LoadConfig_def loadConfig_def
      checkFields_regular_def checkFields_secrets_def NewCommand_def NewControlCommand_def
      NewMessage_def GenerateHexSuffix_eq hexchar_def upperhex_def connect_def OnConnect_def
      waitSubscribed_def publishAndWatch_def waitPublish_def onAckMessage_def ackLoopBody_def
      watch_def
      HandleAck_def exampleDecode_def STATUS_CODE_OK_def INFO_Printf_def ERROR_Printf_def
      fmt_d_def fmt_nat.simps decimals_def TIMEOUT_def Second_def ACK_QOS_def
      DISCONNECT_WAIT_def Let_def)

lemma command_switch_on:
  "NewCommand (draws switch_on_run) (now switch_on_run) (readSuntimes switch_on_run)
     (''pc'' @ ''-'' @ binaryName switch_on_run) (flagArgs switch_on_run) =
   Inr switch_on_command"
  by (simp add: switch_on_run_def switch_on_command_def NewCommand_def NewControlCommand_def
      NewMessage_def GenerateHexSuffix_eq hexchar_def upperhex_def)

theorem publish_follows_confirmed_subscription_witness:
  "takeWhile (\<lambda>ev. \<not> isPublish ev) (fst (main switch_on_run)) =
     [ClientConnect ''ssl://broker.example.org:8883'' ''pc-indy-mqtt'',
      ConnectTokenDone None, ClientSubscribe ''indy-switch/esp-vorona/ack'' 1,
      SubscribeTokenDone None, TimeAfter 30000000000] \<and>
   SubscribeTokenDone None \<in> set (takeWhile (\<lambda>ev. \<not> isPublish ev) (fst (main switch_on_run)))"
proof -
  have h: "osHostname switch_on_run = Inr ''pc''"
    by (simp add: switch_on_run_def)
  have a: "IsAckExpected switch_on_command"
    by (simp add: switch_on_command_def)
  have s: "subscribeReply switch_on_run = SubscribeOk"
    by (simp add: switch_on_run_def)
  from publish_follows_confirmed_subscription [OF h command_switch_on a] s
  show ?thesis
    by (simp add: run_switch_on)
qed

text \<open>
  The claim as the spec states it fails when the subscription is not confirmed in
  time: \<open>connect\<close> logs the timeout and returns the client without an error, and
  \<open>main\<close> goes on to publish.
\<close>

theorem subscribe_timeout_still_publishes:
  "connect (switch_on_run\<lparr>subscribeReply := NoReply, ackWait := []\<rparr>) example_config
      ''pc-indy-mqtt'' True ''esp-vorona'' =
     ([ClientConnect ''ssl://broker.example.org:8883'' ''pc-indy-mqtt'',
       ConnectTokenDone None, ClientSubscribe ''indy-switch/esp-vorona/ack'' 1,
       TimeAfter 30000000000, Received TimerFires,
       Logged Stderr ''ERROR: ''
         (''Timed out while waiting to subscribe to '' @ quoted ''indy-switch/esp-vorona/ack'')],
      Returned (Inr (Client ''ssl://broker.example.org:8883'' ''pc-indy-mqtt''))) \<and>
   main (switch_on_run\<lparr>subscribeReply := NoReply, ackWait := []\<rparr>) =
     ([ClientConnect ''ssl://broker.example.org:8883'' ''pc-indy-mqtt'',
       ConnectTokenDone None, ClientSubscribe ''indy-switch/esp-vorona/ack'' 1,
       TimeAfter 30000000000, Received TimerFires,
       Logged Stderr ''ERROR: ''
         (''Timed out while waiting to subscribe to '' @ quoted ''indy-switch/esp-vorona/ack''),
       ClientPublish ''indy-switch/esp-vorona/control'' 2 False ''{message}'',
       PublishTokenDone None, TimeAfter 30000000000, Received TimerFires,
       Logged Stderr ''ERROR: '' ''Timed out while waiting for ACK'',
       ClientDisconnect 250],
      Returned AckTimeout)"
  by (simp add: switch_on_run_def example_config_def
      main_def parseCommandLine_def LoadConfig_def loadConfig_def
      checkFields_regular_def checkFields_secrets_def NewCommand_def NewControlCommand_def
      NewMessage_def connect_def OnConnect_def watch_def
      waitSubscribed_def publishAndWatch_def waitPublish_def INFO_Printf_def ERROR_Printf_def
      fmt_d_def fmt_nat.simps decimals_def TIMEOUT_def Second_def ACK_QOS_def
      DISCONNECT_WAIT_def Let_def)

section \<open>Commands without an ack\<close>

lemma andThen_cong:
  "(\<And>a. snd p = Returned a \<Longrightarrow> f a = g a) \<Longrightarrow> andThen p f = andThen p g"
  by (cases p) (auto simp: andThen_def split: result.splits)

lemma INFO_ignores_acks [simp]:
  "INFO_Printf (e\<lparr>ackWait := w, jsonUnmarshalAck := d\<rparr>) msg = INFO_Printf e msg"
  by (simp add: INFO_Printf_def)

lemma waitPublish_ignores_acks [simp]:
  "waitPublish (e\<lparr>ackWait := w, jsonUnmarshalAck := d\<rparr>) = waitPublish e"
  by (simp add: waitPublish_def split: publish_wait.splits option.splits)

lemma marshalToJSONString_ignores_acks [simp]:
  "marshalToJSONString (e\<lparr>ackWait := w, jsonUnmarshalAck := d\<rparr>) m =
     marshalToJSONString e m"
  by (simp add: marshalToJSONString_def)

lemma publishAndWatch_ignores_acks:
  assumes "\<not> IsAckExpected cmd"
  shows "publishAndWatch (e\<lparr>ackWait := w, jsonUnmarshalAck := d\<rparr>) cmd cl =
           publishAndWatch e cmd cl"
proof (cases "jsonMarshal e (Message cmd)")
  case (Inl err)
  then show ?thesis by (simp add: publishAndWatch_def)
next
  case (Inr bytes)
  show ?thesis
  proof (cases "Verbose e")
    case True
    then show ?thesis
      using Inr assms
      by (cases "marshalToJSONString e (Message cmd)"; cases "waitPublish e")
         (auto simp: publishAndWatch_def split: result.splits)
  next
    case False
    then show ?thesis
      using Inr assms by (cases "waitPublish e") (auto simp: publishAndWatch_def)
  qed
qed

lemma OnConnect_ignores_acks [simp]:
  "OnConnect (e\<lparr>ackWait := w, jsonUnmarshalAck := d\<rparr>) b t = OnConnect e b t"
  by (simp add: OnConnect_def split: subscribe_reply.splits)

lemma waitSubscribed_ignores_acks [simp]:
  "waitSubscribed (e\<lparr>ackWait := w, jsonUnmarshalAck := d\<rparr>) t = waitSubscribed e t"
  by (simp add: waitSubscribed_def split: subscribe_reply.splits)

lemma connect_ignores_acks:
  "connect (e\<lparr>ackWait := w, jsonUnmarshalAck := d\<rparr>) cfg cid b h = connect e cfg cid b h"
  by (cases "connectError e") (simp_all add: connect_ok connect_failed)

lemma main_ignores_acks:
  assumes "osHostname e = Inr h"
    "NewCommand (draws e) (now e) (readSuntimes e) (h @ ''-'' @ binaryName e) (flagArgs e) =
       Inr cmd"
    "\<not> IsAckExpected cmd"
  shows "main (e\<lparr>ackWait := w, jsonUnmarshalAck := d\<rparr>) = main e"
proof -
  have p: "parseCommandLine (e\<lparr>ackWait := w, jsonUnmarshalAck := d\<rparr>) = parseCommandLine e"
    by (simp add: parseCommandLine_def split: flag_parse.splits)
  have l: "LoadConfig (e\<lparr>ackWait := w, jsonUnmarshalAck := d\<rparr>) = LoadConfig e"
    by (simp add: LoadConfig_def)
  have args: "args = flagArgs e" if "snd (parseCommandLine e) = Returned args" for args
    using that by (simp add: parseCommandLine_def split: flag_parse.splits if_splits)
  have f: "publishAndWatch (e\<lparr>ackWait := w, jsonUnmarshalAck := d\<rparr>) cmd =
             publishAndWatch e cmd"
    using publishAndWatch_ignores_acks [OF assms(3)] by (intro ext)
  show ?thesis
    unfolding main_def p l connect_ignores_acks
    using assms(1,2)
    apply (intro andThen_cong)
    apply (drule args)
    apply (simp add: Let_def f)
    done
qed

text \<open>
  C4. For a command that expects no ack, \<open>connect\<close> never subscribes and neither does
  the rest of the run; what arrives on the ack channel, and how it would decode,
  changes nothing in the run. When the broker confirms the publish, the program logs
  the success and disconnects at once, without starting a timer or waiting, and the
  outcome is \<open>PublishedNoAckRequired\<close>.
\<close>

theorem no_ack_expected_ends_after_publish:
  assumes "\<not> IsAckExpected cmd"
  shows "\<not> list_ex isSubscribe (fst (connect e cfg cid (IsAckExpected cmd) (Host cmd))) \<and>
         \<not> list_ex isSubscribe (fst (publishAndWatch e cmd cl)) \<and>
         publishAndWatch (e\<lparr>ackWait := w, jsonUnmarshalAck := d\<rparr>) cmd cl =
           publishAndWatch e cmd cl \<and>
         (marshalled e cmd \<and> publishWait e = TokenDone None \<longrightarrow>
            (\<exists>pre bytes. list_all isInfo pre \<and>
               publishAndWatch e cmd cl =
                 (pre @ [ClientPublish (Topic cmd) (QOS cmd) False bytes, PublishTokenDone None] @
                  INFO_Printf e ''Message published successfully'' @
                  [ClientDisconnect DISCONNECT_WAIT] @
                  INFO_Printf e ''Disconnected from broker'',
                  Returned PublishedNoAckRequired))) \<and>
         (\<forall>h. osHostname e = Inr h \<and>
              NewCommand (draws e) (now e) (readSuntimes e) (h @ ''-'' @ binaryName e)
                (flagArgs e) = Inr cmd \<longrightarrow>
              \<not> list_ex isSubscribe (fst (main e)) \<and>
              main (e\<lparr>ackWait := w, jsonUnmarshalAck := d\<rparr>) = main e \<and>
              (marshalled e cmd \<and> publishWait e = TokenDone None \<and>
               ConnectTokenDone None \<in> set (fst (main e)) \<longrightarrow>
                 snd (main e) = Returned PublishedNoAckRequired))"
proof -
  have calm: "\<not> panics e cmd"
    using assms by (simp add: panics_def)
  have c: "\<not> list_ex isSubscribe (fst (connect e cfg cid (IsAckExpected cmd) (Host cmd)))" for cfg cid
    using connect_trace_quiet [of e cfg cid "IsAckExpected cmd" "Host cmd"] assms by simp
  have p: "\<not> list_ex isSubscribe (fst (publishAndWatch e cmd cl))" for cl
  proof (cases "marshalled e cmd")
    case True
    from publishAndWatch_returns [OF True calm, of cl] assms show ?thesis
      by (auto simp: INFO_Printf_def split: if_splits)
  next
    case False
    from publishAndWatch_fatal [OF False, of cl] show ?thesis
      using infos_no_subscribe by auto
  qed
  have confirmed: "\<exists>pre bytes. list_all isInfo pre \<and>
               publishAndWatch e cmd cl =
                 (pre @ [ClientPublish (Topic cmd) (QOS cmd) False bytes, PublishTokenDone None] @
                  INFO_Printf e ''Message published successfully'' @
                  [ClientDisconnect DISCONNECT_WAIT] @
                  INFO_Printf e ''Disconnected from broker'',
                  Returned PublishedNoAckRequired)"
    if "marshalled e cmd \<and> publishWait e = TokenDone None" for cl
  proof -
    from that have m: "marshalled e cmd" and w: "publishWait e = TokenDone None" by simp_all
    from publishAndWatch_run_calm [OF m calm, of cl] show ?thesis
      using assms by (simp add: waitPublish_confirmed [OF w]) blast
  qed
  have whole: "\<not> list_ex isSubscribe (fst (main e)) \<and>
              main (e\<lparr>ackWait := w, jsonUnmarshalAck := d\<rparr>) = main e \<and>
              (marshalled e cmd \<and> publishWait e = TokenDone None \<and>
               ConnectTokenDone None \<in> set (fst (main e)) \<longrightarrow>
                 snd (main e) = Returned PublishedNoAckRequired)"
    if "osHostname e = Inr h \<and>
              NewCommand (draws e) (now e) (readSuntimes e) (h @ ''-'' @ binaryName e)
                (flagArgs e) = Inr cmd" for h
  proof -
    from that have h: "osHostname e = Inr h" and
      n: "NewCommand (draws e) (now e) (readSuntimes e) (h @ ''-'' @ binaryName e)
                (flagArgs e) = Inr cmd" by simp_all
    have none: "\<not> list_ex isSubscribe (fst (main e))"
    proof (cases "list_all beforeSession (fst (main e))")
      case True
      then show ?thesis by (rule beforeSession_no_subscribe)
    next
      case False
      from main_run [OF h n False] obtain cfg' where
        "main e =
          (fst (connect e cfg' (h @ ''-'' @ binaryName e) (IsAckExpected cmd) (Host cmd)) @
           fst (publishAndWatch e cmd (Client (brokerUrlOf cfg') (h @ ''-'' @ binaryName e))),
           snd (publishAndWatch e cmd (Client (brokerUrlOf cfg') (h @ ''-'' @ binaryName e))))"
        by blast
      then show ?thesis
        using c p by simp
    qed
    have outcome: "snd (main e) = Returned PublishedNoAckRequired"
      if "marshalled e cmd \<and> publishWait e = TokenDone None \<and>
               ConnectTokenDone None \<in> set (fst (main e))"
    proof -
      from that have "\<not> list_all beforeSession (fst (main e))"
        using beforeSession_no_connected by blast
      from main_run [OF h n this] obtain cfg' where
        m: "main e =
          (fst (connect e cfg' (h @ ''-'' @ binaryName e) (IsAckExpected cmd) (Host cmd)) @
           fst (publishAndWatch e cmd (Client (brokerUrlOf cfg') (h @ ''-'' @ binaryName e))),
           snd (publishAndWatch e cmd (Client (brokerUrlOf cfg') (h @ ''-'' @ binaryName e))))"
        by blast
      from confirmed [of "Client (brokerUrlOf cfg') (h @ ''-'' @ binaryName e)"] that
      show ?thesis
        unfolding m by auto
    qed
    from none outcome main_ignores_acks [OF h n assms] show ?thesis
      by blast
  qed
  from c p confirmed whole publishAndWatch_ignores_acks [OF assms] show ?thesis
    by blast
qed

theorem no_ack_expected_ends_after_publish_witness:
  "main (switch_on_run\<lparr>flagArgs := [''esp-vorona'', ''restart'']\<rparr>) =
     ([ClientConnect ''ssl://broker.example.org:8883'' ''pc-indy-mqtt'',
       ConnectTokenDone None,
       ClientPublish ''indy-switch/esp-vorona/restart'' 2 False ''{message}'',
       PublishTokenDone None, ClientDisconnect 250],
      Returned PublishedNoAckRequired) \<and>
   main (switch_on_run\<lparr>flagArgs := [''esp-vorona'', ''restart''], ackWait := [SignalArrives],
      jsonUnmarshalAck := (\<lambda>p. Inl ''no JSON'')\<rparr>) =
     main (switch_on_run\<lparr>flagArgs := [''esp-vorona'', ''restart'']\<rparr>)"
proof -
  let ?e = "switch_on_run\<lparr>flagArgs := [''esp-vorona'', ''restart'']\<rparr>"
  have a: "\<not> IsAckExpected restart_command"
    by (simp add: restart_command_def)
  have h: "osHostname ?e = Inr ''pc''"
    by (simp add: switch_on_run_def)
  have n: "NewCommand (draws ?e) (now ?e) (readSuntimes ?e) (''pc'' @ ''-'' @ binaryName ?e)
             (flagArgs ?e) = Inr restart_command"
    by (simp add: switch_on_run_def restart_command_def NewCommand_def NewRestartCommand_def
        NewMessage_def GenerateHexSuffix_eq hexchar_def upperhex_def)
  have r: "main ?e =
     ([ClientConnect ''ssl://broker.example.org:8883'' ''pc-indy-mqtt'',
       ConnectTokenDone None,
       ClientPublish ''indy-switch/esp-vorona/restart'' 2 False ''{message}'',
       PublishTokenDone None, ClientDisconnect 250],
      Returned PublishedNoAckRequired)"
    by (simp add: switch_on_run_def
      main_def parseCommandLine_def LoadConfig_def loadConfig_def
      checkFields_regular_def checkFields_secrets_def NewCommand_def NewRestartCommand_def
      NewMessage_def connect_def OnConnect_def
      publishAndWatch_def waitPublish_def INFO_Printf_def
      fmt_d_def fmt_nat.simps decimals_def DISCONNECT_WAIT_def Let_def)
  from no_ack_expected_ends_after_publish [where cmd = restart_command and e = ?e and
      w = "[SignalArrives]" and d = "\<lambda>p. Inl ''no JSON''", OF a] h n
  have "main (?e\<lparr>ackWait := [SignalArrives], jsonUnmarshalAck := (\<lambda>p. Inl ''no JSON'')\<rparr>) =
          main ?e"
    by blast
  with r show ?thesis by simp
qed

end
